theory Spec2Isabelle
  imports Complex_Main "HOL-Library.AList"
begin

section \<open>Python values shared by the crawlers and the indexer\<close>

text \<open>
  A Python \<open>str\<close> is a sequence of Unicode code points. The indexer's tokenizer
  names the Bangla block \<open>U+0980..U+09FF\<close>, which lies outside the 8-bit
  characters of \<open>string\<close>, so text is a list of code points and \<open>u\<close> reads
  an ASCII literal.
\<close>

type_synonym ustr = "nat list"

definition u :: "string \<Rightarrow> ustr" where
  "u s = map of_char s"

text \<open>
  \<open>str.isspace\<close>, which \<open>str.strip()\<close>, \<open>str.split()\<close> and the regular
  expression class \<open>\s\<close> all use: the ASCII controls 9-13 and 28-31, the space,
  and the Unicode white space beyond ASCII.
\<close>

definition isspace :: "nat \<Rightarrow> bool" where
  "isspace c =
     ((9 \<le> c \<and> c \<le> 13) \<or> (28 \<le> c \<and> c \<le> 32) \<or> c = 133 \<or> c = 160 \<or> c = 5760 \<or>
      (8192 \<le> c \<and> c \<le> 8202) \<or> c = 8232 \<or> c = 8233 \<or> c = 8239 \<or> c = 8287 \<or>
      c = 12288)"

definition ascii_alnum :: "nat \<Rightarrow> bool" where
  "ascii_alnum c = ((48 \<le> c \<and> c \<le> 57) \<or> (65 \<le> c \<and> c \<le> 90) \<or> (97 \<le> c \<and> c \<le> 122))"

text \<open>
  The Unicode character database is not part of the repository. Beyond ASCII the
  alphanumeric class (behind \<open>\w\<close>), the decimal digits (behind \<open>\d\<close>) and
  \<open>str.lower()\<close> are parameters; on ASCII all three are written out.
\<close>

record unicode_db =
  alnum_ext :: "nat \<Rightarrow> bool"
  decimal_ext :: "nat \<Rightarrow> bool"
  lower_ext :: "ustr \<Rightarrow> ustr"

definition is_word :: "unicode_db \<Rightarrow> nat \<Rightarrow> bool" where
  "is_word U c = (if c < 128 then ascii_alnum c \<or> c = 95 else alnum_ext U c)"


definition py_lower :: "unicode_db \<Rightarrow> ustr \<Rightarrow> ustr" where
  "py_lower U s =
     (if list_all (\<lambda>c. c < 128) s
      then map (\<lambda>c. if 65 \<le> c \<and> c \<le> 90 then c + 32 else c) s
      else lower_ext U s)"

definition py_strip :: "ustr \<Rightarrow> ustr" where
  "py_strip s = rev (dropWhile isspace (rev (dropWhile isspace s)))"

text \<open>\<open>str.split()\<close> without arguments: the maximal runs of non-space characters.\<close>

fun split_acc :: "ustr \<Rightarrow> ustr \<Rightarrow> ustr list" where
  "split_acc cur [] = (if cur = [] then [] else [cur])"
| "split_acc cur (c # cs) =
     (if isspace c then (if cur = [] then split_acc [] cs else cur # split_acc [] cs)
      else split_acc (cur @ [c]) cs)"

definition py_split :: "ustr \<Rightarrow> ustr list" where
  "py_split s = split_acc [] s"

text \<open>\<open>str(n)\<close> of a non-negative integer: its decimal digits.\<close>

function py_str :: "nat \<Rightarrow> ustr" where
  "py_str n = (if n < 10 then [48 + n] else py_str (n div 10) @ [48 + n mod 10])"
  by pat_completeness auto
termination
  by (relation "measure id") auto

declare py_str.simps [simp del]

text \<open>
  What \<open>json.loads\<close> returns and \<open>json.dumps\<close> takes. An object keeps its keys in
  order, each key once; a number with a fraction or exponent is kept as its decimal
  mantissa and exponent. The codec itself is the standard library's and is a parameter
  of the functions that call it: \<open>json_loads\<close> returns \<open>None\<close> where
  \<open>json.loads\<close> raises \<open>JSONDecodeError\<close>.
\<close>

datatype json =
    JNull
  | JBool bool
  | JInt int
  | JFloat int int
  | JStr ustr
  | JArr "json list"
  | JObj "(ustr \<times> json) list"

datatype error = AttributeError | TypeError

section \<open>The indexer: \<open>indexing/build_index.py\<close>\<close>

text \<open>
  \<open>tokenize(text, language)\<close>. The first statement is \<open>text.strip()\<close>, which only a
  \<open>str\<close> has: any other value raises \<open>AttributeError\<close>.
\<close>

definition re_sub_punct :: "unicode_db \<Rightarrow> ustr \<Rightarrow> ustr" where
  "re_sub_punct U text =
     map (\<lambda>c. if is_word U c \<or> isspace c \<or> (2432 \<le> c \<and> c \<le> 2559) then c else 32) text"

definition tokenize :: "unicode_db \<Rightarrow> json \<Rightarrow> ustr \<Rightarrow> error + ustr list" where
  "tokenize U text language =
     (case text of
        JStr s \<Rightarrow>
          (let t1 = py_strip s;
               t2 = (if language = u ''english'' then py_lower U t1 else t1);
               t3 = re_sub_punct U t2
           in Inr (py_split t3))
      | _ \<Rightarrow> Inl AttributeError)"

text \<open>\<open>doc.get("body", "")\<close>: only a \<open>dict\<close> has \<open>get\<close>.\<close>

definition doc_get_body :: "json \<Rightarrow> error + json" where
  "doc_get_body doc =
     (case doc of
        JObj kvs \<Rightarrow> Inr (case map_of kvs (u ''body'') of None \<Rightarrow> JStr [] | Some v \<Rightarrow> v)
      | _ \<Rightarrow> Inl AttributeError)"

text \<open>\<open>Counter(tokens)\<close>: each distinct token with its count, in first-seen order.\<close>

definition counter :: "ustr list \<Rightarrow> (ustr \<times> nat) list" where
  "counter tokens =
     fold (\<lambda>t c. AList.update t (case map_of c t of None \<Rightarrow> 1 | Some n \<Rightarrow> Suc n) c) tokens []"

type_synonym index = "(ustr \<times> (ustr \<times> nat) list) list"

text \<open>\<open>for term, freq in tf.items(): inverted_index[term][doc_id] = freq\<close> on a
  \<open>defaultdict(dict)\<close>.\<close>

definition add_postings :: "ustr \<Rightarrow> (ustr \<times> nat) list \<Rightarrow> index \<Rightarrow> index" where
  "add_postings doc_id tf ix =
     fold (\<lambda>(tm, freq) ix'.
             AList.update tm
               (AList.update doc_id freq (case map_of ix' tm of None \<Rightarrow> [] | Some d \<Rightarrow> d)) ix')
          tf ix"

text \<open>The local variables of \<open>build_index\<close>, and the line numbers it warns about.
  The returned \<open>stats\<close> dictionary has the keys \<open>language\<close>, \<open>total_documents\<close>,
  \<open>skipped_lines\<close>, \<open>vocabulary_size\<close> and \<open>average_doc_length\<close>; two of its fields
  carry the prefix \<open>stat_\<close> to keep them apart from the variables.\<close>

record index_state =
  inverted_index :: index
  doc_lengths :: "(ustr \<times> nat) list"
  total_docs :: nat
  skipped_lines :: nat
  warnings :: "nat list"

definition index_init :: index_state where
  "index_init =
     \<lparr>inverted_index = [], doc_lengths = [], total_docs = 0, skipped_lines = 0, warnings = []\<rparr>"

text \<open>The body of the loop over the file's lines, for the line numbered \<open>line_no\<close>.\<close>

definition index_line ::
  "unicode_db \<Rightarrow> (ustr \<Rightarrow> json option) \<Rightarrow> ustr \<Rightarrow> nat \<Rightarrow> ustr \<Rightarrow> index_state \<Rightarrow> error + index_state"
where
  "index_line U json_loads language line_no raw st =
     (let line = py_strip raw in
      if line = [] then Inr st
      else
        (case json_loads line of
           None \<Rightarrow>
             Inr (st\<lparr>skipped_lines := skipped_lines st + 1, warnings := warnings st @ [line_no]\<rparr>)
         | Some doc \<Rightarrow>
             (case doc_get_body doc of
                Inl e \<Rightarrow> Inl e
              | Inr text \<Rightarrow>
                  (case tokenize U text language of
                     Inl e \<Rightarrow> Inl e
                   | Inr tokens \<Rightarrow>
                       (let doc_id = py_str (total_docs st) in
                        Inr (st\<lparr>total_docs := total_docs st + 1,
                                doc_lengths := AList.update doc_id (length tokens) (doc_lengths st),
                                inverted_index :=
                                  add_postings doc_id (counter tokens) (inverted_index st)\<rparr>))))))"

fun index_lines ::
  "unicode_db \<Rightarrow> (ustr \<Rightarrow> json option) \<Rightarrow> ustr \<Rightarrow> nat \<Rightarrow> ustr list \<Rightarrow> index_state \<Rightarrow> error + index_state"
where
  "index_lines U json_loads language line_no [] st = Inr st"
| "index_lines U json_loads language line_no (raw # rest) st =
     (case index_line U json_loads language line_no raw st of
        Inl e \<Rightarrow> Inl e
      | Inr st' \<Rightarrow> index_lines U json_loads language (line_no + 1) rest st')"

record stats =
  stat_language :: ustr
  total_documents :: nat
  stat_skipped_lines :: nat
  vocabulary_size :: nat
  average_doc_length :: real

definition make_stats :: "ustr \<Rightarrow> index_state \<Rightarrow> stats" where
  "make_stats lang st =
     \<lparr>stat_language = lang,
      total_documents = total_docs st,
      stat_skipped_lines = skipped_lines st,
      vocabulary_size = length (inverted_index st),
      average_doc_length =
        (if total_docs st > 0
         then real (sum_list (map snd (doc_lengths st))) / real (total_docs st) else 0)\<rparr>"

text \<open>\<open>build_index(language, corpus_path)\<close> on the lines of the corpus file.\<close>

definition build_index ::
  "unicode_db \<Rightarrow> (ustr \<Rightarrow> json option) \<Rightarrow> ustr \<Rightarrow> ustr list
     \<Rightarrow> error + (index \<times> (ustr \<times> nat) list \<times> stats)"
where
  "build_index U json_loads lang file_lines =
     (case index_lines U json_loads lang 1 file_lines index_init of
        Inl e \<Rightarrow> Inl e
      | Inr st \<Rightarrow> Inr (inverted_index st, doc_lengths st, make_stats lang st))"

text \<open>
  The lines the indexer is meant for. A document line holds a JSON object whose \<open>body\<close>
  is a string or is absent; a malformed line is not blank and does not decode.
\<close>

definition is_document :: "(ustr \<Rightarrow> json option) \<Rightarrow> ustr \<Rightarrow> bool" where
  "is_document json_loads raw =
     (py_strip raw \<noteq> [] \<and>
      (case json_loads (py_strip raw) of
         Some (JObj kvs) \<Rightarrow>
           (case map_of kvs (u ''body'') of None \<Rightarrow> True | Some (JStr s) \<Rightarrow> True | Some _ \<Rightarrow> False)
       | _ \<Rightarrow> False))"

definition is_malformed :: "(ustr \<Rightarrow> json option) \<Rightarrow> ustr \<Rightarrow> bool" where
  "is_malformed json_loads raw = (py_strip raw \<noteq> [] \<and> json_loads (py_strip raw) = None)"

section \<open>The sink line of the crawlers\<close>

text \<open>
  Every crawler that writes its own file writes
  \<open>json.dumps(doc, ensure_ascii=False) + "\\n"\<close>; \<open>json_dumps\<close> is the parameter for
  the standard library's encoder.
\<close>

definition sink_line :: "(json \<Rightarrow> ustr) \<Rightarrow> json \<Rightarrow> ustr" where
  "sink_line json_dumps doc = json_dumps doc @ [10]"


section \<open>Concrete inputs\<close>

text \<open>
  A Unicode database that knows nothing beyond ASCII, and small codecs that decode one
  fixed line each; they instantiate the parameters where a theorem is applied to a
  concrete file.
\<close>

definition U0 :: unicode_db where
  "U0 = \<lparr>alnum_ext = (\<lambda>c. False), decimal_ext = (\<lambda>c. False), lower_ext = (\<lambda>s. s)\<rparr>"

definition loads0 :: "ustr \<Rightarrow> json option" where
  "loads0 s = (if s = u ''{}'' then Some (JObj []) else None)"

definition dumps0 :: "json \<Rightarrow> ustr" where
  "dumps0 j = u ''{...}''"




text \<open>
  The headline-only item of \<open>ProthomAloBangladeshSpider\<close> (\<open>parse\<close> and
  \<open>parse_api\<close> yield the same dictionary, with their own title, author and token
  count): \<open>body\<close>, \<open>url\<close> and \<open>date\<close> are \<open>None\<close>.
\<close>

definition pa_headline_only :: "json \<Rightarrow> json \<Rightarrow> int \<Rightarrow> json" where
  "pa_headline_only title author tokens =
     JObj [(u ''title'', title), (u ''body'', JNull), (u ''url'', JNull), (u ''date'', JNull),
           (u ''language'', JStr (u ''bn'')), (u ''author'', author), (u ''tokens'', JInt tokens),
           (u ''section'', JStr (u ''bangladesh'')), (u ''subcategory'', JStr (u ''bangladesh'')),
           (u ''source'', JStr (u ''Prothom Alo'')), (u ''content_type'', JStr (u ''headline-only''))]"

definition headline_doc :: json where
  "headline_doc = pa_headline_only (JStr (u ''T'')) JNull 1"

definition loads_headline :: "ustr \<Rightarrow> json option" where
  "loads_headline s = (if s = u ''{...}'' then Some headline_doc else None)"

text \<open>
  A codec for a corpus file that mixes three kinds of line: the empty object, the
  headline-only item, and a line that does not decode. The file has 99 lines with the
  empty object, then the undecodable line, then the headline-only item as the spider's
  feed writes it: 100 lines that are well-formed JSON and one that is not.
\<close>

definition loads_corpus :: "ustr \<Rightarrow> json option" where
  "loads_corpus s = (if s = u ''{}'' then Some (JObj []) else loads_headline s)"

definition corpus_with_headline :: "ustr list" where
  "corpus_with_headline =
     replicate 99 (u ''{}'' @ [10]) @ [u ''{oops'' @ [10], sink_line dumps0 headline_doc]"


section \<open>The fetch client of \<open>newage_crawler.py\<close>\<close>

text \<open>
  What one \<open>session.get\<close> can end in: an exception (a connection error or the
  30 second timeout), or a response with its status, its \<open>Retry-After\<close> header and
  its text; the text is \<open>None\<close> where reading it raises. The header is what
  \<open>int(response.headers.get("Retry-After", 60))\<close> sees: absent, an integer, or a
  string on which \<open>int\<close> raises \<open>ValueError\<close>.
\<close>

datatype retry_after = No_header | Seconds int | Unparsable

datatype attempt =
    Raised
  | Response int retry_after "ustr option"

text \<open>
  The argument of \<open>asyncio.sleep\<close>: the seconds of a 429, or
  \<open>backoff * (2 ** i)\<close> plus the value \<open>random.uniform(0, 1)\<close> returned.
\<close>

datatype sleep = Rate_limit_wait int | Backoff_wait int real

datatype outcome = Return "ustr option" | Retry sleep

datatype fetch_event = Request | Slept sleep

text \<open>The \<open>except Exception\<close> branch of attempt \<open>i\<close>.\<close>

definition on_exception :: "nat \<Rightarrow> int \<Rightarrow> nat \<Rightarrow> real \<Rightarrow> outcome" where
  "on_exception retries backoff i jitter =
     (if i = retries - 1 then Return None else Retry (Backoff_wait (backoff * 2 ^ i) jitter))"

text \<open>
  One pass through the body of \<open>for i in range(retries)\<close>: it returns, or sleeps and
  goes on to the next \<open>i\<close>. \<open>raise_for_status\<close> raises for a status of 400 or more.
\<close>

definition attempt_step :: "nat \<Rightarrow> int \<Rightarrow> nat \<Rightarrow> attempt \<Rightarrow> real \<Rightarrow> outcome" where
  "attempt_step retries backoff i a jitter =
     (case a of
        Raised \<Rightarrow> on_exception retries backoff i jitter
      | Response status ra body \<Rightarrow>
          if status = 429 then
            (case ra of
               No_header \<Rightarrow> Retry (Rate_limit_wait 60)
             | Seconds w \<Rightarrow> Retry (Rate_limit_wait w)
             | Unparsable \<Rightarrow> on_exception retries backoff i jitter)
          else if status \<ge> 400 then on_exception retries backoff i jitter
          else (case body of
                  None \<Rightarrow> on_exception retries backoff i jitter
                | Some t \<Rightarrow> Return (Some t)))"

text \<open>
  The loop over the attempt numbers, with the requests made and the sleeps taken in
  order. When the numbers run out the function falls off its end and returns \<open>None\<close>.
\<close>

fun fetch_attempts ::
  "nat \<Rightarrow> int \<Rightarrow> (nat \<Rightarrow> attempt) \<Rightarrow> (nat \<Rightarrow> real) \<Rightarrow> nat list \<Rightarrow> ustr option \<times> fetch_event list"
where
  "fetch_attempts retries backoff env jitter [] = (None, [])"
| "fetch_attempts retries backoff env jitter (i # rest) =
     (case attempt_step retries backoff i (env i) (jitter i) of
        Return r \<Rightarrow> (r, [Request])
      | Retry s \<Rightarrow>
          (let (r, evs) = fetch_attempts retries backoff env jitter rest
           in (r, Request # Slept s # evs)))"

definition fetch_url :: "(nat \<Rightarrow> attempt) \<Rightarrow> (nat \<Rightarrow> real) \<Rightarrow> ustr option \<times> fetch_event list" where
  "fetch_url env jitter = fetch_attempts 3 1 env jitter [0, 1, 2]"

definition requests :: "fetch_event list \<Rightarrow> nat" where
  "requests evs = length (filter (\<lambda>e. e = Request) evs)"

fun sleep_base :: "sleep \<Rightarrow> int" where
  "sleep_base (Rate_limit_wait w) = w"
| "sleep_base (Backoff_wait b j) = b"

fun sleeps :: "fetch_event list \<Rightarrow> sleep list" where
  "sleeps [] = []"
| "sleeps (Request # evs) = sleeps evs"
| "sleeps (Slept s # evs) = s # sleeps evs"

fun backoff_bases :: "sleep list \<Rightarrow> int list" where
  "backoff_bases [] = []"
| "backoff_bases (Rate_limit_wait w # ss) = backoff_bases ss"
| "backoff_bases (Backoff_wait b j # ss) = b # backoff_bases ss"

text \<open>An attempt that does not return the page: an exception, a status of 400 or more
  (429 among them), or a text that cannot be read.\<close>

definition attempt_failed :: "attempt \<Rightarrow> bool" where
  "attempt_failed a =
     (case a of Raised \<Rightarrow> True
      | Response status ra body \<Rightarrow> status \<ge> 400 \<or> body = None)"

text \<open>Concrete servers and the jitter that is always 0.\<close>

definition env_404 :: "nat \<Rightarrow> attempt" where
  "env_404 i = Response 404 No_header (Some [])"

definition env_429_then_timeout :: "nat \<Rightarrow> attempt" where
  "env_429_then_timeout i =
     (if i = 0 then Response 429 No_header (Some [])
      else if i = 1 then Raised
      else Response 200 No_header (Some (u ''ok'')))"

definition no_jitter :: "nat \<Rightarrow> real" where
  "no_jitter i = 0"

definition env_403_then_ok :: "nat \<Rightarrow> attempt" where
  "env_403_then_ok i =
     (if i = 0 then Response 403 No_header (Some []) else Response 200 No_header (Some (u ''ok'')))"

section \<open>Strings and dictionaries the crawlers use\<close>

text \<open>\<open>s.startswith(p)\<close> and \<open>sub in s\<close>.\<close>

fun starts_with :: "ustr \<Rightarrow> ustr \<Rightarrow> bool" where
  "starts_with s [] = True"
| "starts_with [] (p # ps) = False"
| "starts_with (c # cs) (p # ps) = (c = p \<and> starts_with cs ps)"

fun contains :: "ustr \<Rightarrow> ustr \<Rightarrow> bool" where
  "contains [] sub = (sub = [])"
| "contains (c # cs) sub = (starts_with (c # cs) sub \<or> contains cs sub)"

text \<open>\<open>doc[k]\<close> of a dictionary, \<open>None\<close> where the key is absent.\<close>

definition doc_field :: "ustr \<Rightarrow> json \<Rightarrow> json option" where
  "doc_field k doc = (case doc of JObj kvs \<Rightarrow> map_of kvs k | _ \<Rightarrow> None)"

section \<open>The NewAge crawler: \<open>newage_crawler.py\<close>\<close>

text \<open>\<open>len(re.findall(r'\w+', body))\<close>: the number of maximal runs of word characters.\<close>

fun word_runs :: "unicode_db \<Rightarrow> bool \<Rightarrow> ustr \<Rightarrow> nat" where
  "word_runs U inside [] = 0"
| "word_runs U inside (c # cs) =
     (if is_word U c then (if inside then word_runs U True cs else Suc (word_runs U True cs))
      else word_runs U False cs)"

text \<open>
  What BeautifulSoup finds in the page: the text of the first \<open>h1\<close> (\<open>No Title\<close>
  without one), the date, and the joined paragraphs. \<open>soup html\<close> is \<open>None\<close> where
  parsing raises, which \<open>parse_article\<close> catches.
\<close>

record na_extracted =
  h1_title :: ustr
  time_datetime :: json
  paragraphs_body :: ustr

definition na_parse_article ::
  "unicode_db \<Rightarrow> (ustr \<Rightarrow> na_extracted option) \<Rightarrow> ustr \<Rightarrow> ustr \<Rightarrow> ustr \<Rightarrow> json option"
where
  "na_parse_article U soup url html category =
     (case soup html of
        None \<Rightarrow> None
      | Some x \<Rightarrow>
          if contains (h1_title x) (u ''Most Popular Outspoken English Daily'') then None
          else if paragraphs_body x = [] \<or> length (paragraphs_body x) < 100 then None
          else Some (JObj [(u ''url'', JStr url), (u ''title'', JStr (h1_title x)),
                 (u ''date'', time_datetime x), (u ''category'', JStr category),
                 (u ''body'', JStr (paragraphs_body x)), (u ''data'', JStr (paragraphs_body x)),
                 (u ''html'', JStr html),
                 (u ''tokens'', JInt (int (word_runs U False (paragraphs_body x)))),
                 (u ''language'', JStr (u ''en''))]))"

text \<open>
  \<open>crawl\<close> creates one \<open>process_article\<close> task per candidate and the event loop runs
  them interleaved. A task gives up control only at an \<open>await\<close> that suspends: the
  fetch, and a lock that is held. The model lets a task be suspended at each
  \<open>async with self.lock\<close> as well, so a task is at one of these places: at its start;
  past the early exit, waiting for the lock that guards \<open>visited_urls\<close>; fetching;
  holding a parsed document and waiting for the lock that guards the counter and the
  file; finished. The body of an \<open>async with\<close> has no \<open>await\<close> and runs as one step.
\<close>

datatype na_pc = Start | Want_visit | Fetching | Want_save json | Finished

record na_task =
  task_url :: ustr
  task_category :: ustr
  pc :: na_pc

record na_crawler =
  na_target_count :: int
  collected_counts :: "ustr \<Rightarrow> int"
  visited_urls :: "ustr set"
  na_output_file :: "json list"
  tasks :: "na_task list"

definition na_init :: "int \<Rightarrow> (ustr \<times> ustr) list \<Rightarrow> na_crawler" where
  "na_init target_count candidates =
     \<lparr>na_target_count = target_count, collected_counts = (\<lambda>cat. 0), visited_urls = {},
      na_output_file = [],
      tasks = map (\<lambda>(url, cat). \<lparr>task_url = url, task_category = cat, pc = Start\<rparr>) candidates\<rparr>"

definition set_pc :: "nat \<Rightarrow> na_pc \<Rightarrow> na_crawler \<Rightarrow> na_crawler" where
  "set_pc i p s = s\<lparr>tasks := (tasks s)[i := (tasks s ! i)\<lparr>pc := p\<rparr>]\<rparr>"

definition save_document :: "json \<Rightarrow> na_crawler \<Rightarrow> na_crawler" where
  "save_document doc s = s\<lparr>na_output_file := na_output_file s @ [doc]\<rparr>"

inductive na_step ::
  "unicode_db \<Rightarrow> (ustr \<Rightarrow> na_extracted option) \<Rightarrow> na_crawler \<Rightarrow> na_crawler \<Rightarrow> bool"
  for U :: unicode_db and soup :: "ustr \<Rightarrow> na_extracted option"
where
  early_exit:
    "\<lbrakk>i < length (tasks s); pc (tasks s ! i) = Start;
      collected_counts s (task_category (tasks s ! i)) \<ge> na_target_count s\<rbrakk>
     \<Longrightarrow> na_step U soup s (set_pc i Finished s)"
| below_target:
    "\<lbrakk>i < length (tasks s); pc (tasks s ! i) = Start;
      \<not> collected_counts s (task_category (tasks s ! i)) \<ge> na_target_count s\<rbrakk>
     \<Longrightarrow> na_step U soup s (set_pc i Want_visit s)"
| already_visited:
    "\<lbrakk>i < length (tasks s); pc (tasks s ! i) = Want_visit;
      task_url (tasks s ! i) \<in> visited_urls s\<rbrakk>
     \<Longrightarrow> na_step U soup s (set_pc i Finished s)"
| visit:
    "\<lbrakk>i < length (tasks s); pc (tasks s ! i) = Want_visit;
      task_url (tasks s ! i) \<notin> visited_urls s\<rbrakk>
     \<Longrightarrow> na_step U soup s
           (set_pc i Fetching (s\<lparr>visited_urls := insert (task_url (tasks s ! i)) (visited_urls s)\<rparr>))"
| fetch_failed:
    "\<lbrakk>i < length (tasks s); pc (tasks s ! i) = Fetching;
      fst (fetch_url env jitter) = None \<or> fst (fetch_url env jitter) = Some []\<rbrakk>
     \<Longrightarrow> na_step U soup s (set_pc i Finished s)"
| no_document:
    "\<lbrakk>i < length (tasks s); pc (tasks s ! i) = Fetching;
      fst (fetch_url env jitter) = Some html; html \<noteq> [];
      na_parse_article U soup (task_url (tasks s ! i)) html (task_category (tasks s ! i)) = None\<rbrakk>
     \<Longrightarrow> na_step U soup s (set_pc i Finished s)"
| parsed:
    "\<lbrakk>i < length (tasks s); pc (tasks s ! i) = Fetching;
      fst (fetch_url env jitter) = Some html; html \<noteq> [];
      na_parse_article U soup (task_url (tasks s ! i)) html (task_category (tasks s ! i)) = Some doc\<rbrakk>
     \<Longrightarrow> na_step U soup s (set_pc i (Want_save doc) s)"
| save:
    "\<lbrakk>i < length (tasks s); pc (tasks s ! i) = Want_save doc;
      collected_counts s (task_category (tasks s ! i)) < na_target_count s\<rbrakk>
     \<Longrightarrow> na_step U soup s
           (set_pc i Finished
              ((save_document doc s)\<lparr>collected_counts :=
                 (collected_counts s)(task_category (tasks s ! i) :=
                    collected_counts s (task_category (tasks s ! i)) + 1)\<rparr>))"
| discard:
    "\<lbrakk>i < length (tasks s); pc (tasks s ! i) = Want_save doc;
      \<not> collected_counts s (task_category (tasks s ! i)) < na_target_count s\<rbrakk>
     \<Longrightarrow> na_step U soup s (set_pc i Finished s)"

inductive na_reachable ::
  "unicode_db \<Rightarrow> (ustr \<Rightarrow> na_extracted option) \<Rightarrow> int \<Rightarrow> (ustr \<times> ustr) list \<Rightarrow> na_crawler \<Rightarrow> bool"
  for U :: unicode_db and soup :: "ustr \<Rightarrow> na_extracted option" and target_count :: int
    and candidates :: "(ustr \<times> ustr) list"
where
  initial: "na_reachable U soup target_count candidates (na_init target_count candidates)"
| step: "\<lbrakk>na_reachable U soup target_count candidates s; na_step U soup s s'\<rbrakk>
         \<Longrightarrow> na_reachable U soup target_count candidates s'"


definition saved_urls :: "na_crawler \<Rightarrow> json option list" where
  "saved_urls s = map (doc_field (u ''url'')) (na_output_file s)"

definition saved_in :: "ustr \<Rightarrow> na_crawler \<Rightarrow> json list" where
  "saved_in cat s = filter (\<lambda>d. doc_field (u ''category'') d = Some (JStr cat)) (na_output_file s)"


section \<open>Regular expressions and string helpers of the crawlers\<close>

text \<open>
  The crawlers' regular expressions all have the shape: a literal, a group that is a run
  of one character class, a literal. \<open>match_run\<close> matches it at the start of \<open>s\<close> and
  returns the group; \<open>search_run\<close> is \<open>re.search\<close>, the leftmost match. For
  \<open>(\d+)\<close> the run is the maximal run of digits and must not be empty: a shorter run
  is followed by a digit, never by the literal.
\<close>

definition match_run ::
  "(nat \<Rightarrow> bool) \<Rightarrow> bool \<Rightarrow> ustr \<Rightarrow> ustr \<Rightarrow> ustr \<Rightarrow> ustr option" where
  "match_run cls nonempty pre post s =
     (if starts_with s pre then
        (let rest = drop (length pre) s; g = takeWhile cls rest
         in if (if nonempty then g \<noteq> [] else True) \<and> starts_with (drop (length g) rest) post
            then Some g else None)
      else None)"

fun search_run ::
  "(nat \<Rightarrow> bool) \<Rightarrow> bool \<Rightarrow> ustr \<Rightarrow> ustr \<Rightarrow> ustr \<Rightarrow> ustr option" where
  "search_run cls nonempty pre post [] = match_run cls nonempty pre post []"
| "search_run cls nonempty pre post (c # cs) =
     (case match_run cls nonempty pre post (c # cs) of
        Some g \<Rightarrow> Some g
      | None \<Rightarrow> search_run cls nonempty pre post cs)"



definition join_space :: "ustr list \<Rightarrow> ustr" where
  "join_space ws = (case ws of [] \<Rightarrow> [] | w # rest \<Rightarrow> w @ concat (map (\<lambda>x. 32 # x) rest))"

text \<open>The truth value Python gives a decoded JSON value in \<open>if v\<close> and \<open>not v\<close>.\<close>

fun truthy :: "json \<Rightarrow> bool" where
  "truthy JNull = False"
| "truthy (JBool b) = b"
| "truthy (JInt n) = (n \<noteq> 0)"
| "truthy (JFloat m e) = (m \<noteq> 0)"
| "truthy (JStr s) = (s \<noteq> [])"
| "truthy (JArr xs) = (xs \<noteq> [])"
| "truthy (JObj kvs) = (kvs \<noteq> [])"

section \<open>The output file and the network, as Daily Sun and Kaler Kantho use them\<close>

text \<open>
  A file opened for writing holds what has reached the disk and what is still in the
  stream's buffer, one document per line. \<open>open(path, 'w')\<close> truncates, \<open>f.write\<close>
  appends to the buffer, \<open>f.flush()\<close> and closing move the buffer to the disk. The buffer
  is also written out when it fills (8192 bytes), which the model leaves out: what it
  says about the buffer holds for lines that fit.
\<close>

record out_file =
  disk :: "json list"
  buffer :: "json list"

definition file_open_w :: out_file where
  "file_open_w = \<lparr>disk = [], buffer = []\<rparr>"

definition file_write :: "json \<Rightarrow> out_file \<Rightarrow> out_file" where
  "file_write doc f = f\<lparr>buffer := buffer f @ [doc]\<rparr>"

definition file_flush :: "out_file \<Rightarrow> out_file" where
  "file_flush f = \<lparr>disk = disk f @ buffer f, buffer = []\<rparr>"

text \<open>
  \<open>subprocess.run(['curl', ...])\<close> raises, or returns an exit code and the standard
  output. The world a sequential crawler runs in: the number of requests made so far
  (the answer of the network may depend on it), the URLs requested in order, the
  output file, the exception that ended the run, and whether the model's loop budget ran
  out before the run ended.
\<close>

datatype curl_result = Curl_raised | Curl_exit int ustr

record world =
  clock :: nat
  fetched :: "ustr list"
  out :: out_file
  raised :: "error option"
  out_of_fuel :: bool

text \<open>\<open>fetch_url\<close>, the same method in both crawlers: one \<open>curl\<close> run, \<open>None\<close> when it
  raises or exits with a code other than 0.\<close>

definition curl_fetch_url ::
  "(nat \<Rightarrow> ustr \<Rightarrow> curl_result) \<Rightarrow> ustr \<Rightarrow> 'a world_scheme \<Rightarrow> ustr option \<times> 'a world_scheme" where
  "curl_fetch_url curl url w =
     ((case curl (clock w) url of
         Curl_raised \<Rightarrow> None
       | Curl_exit returncode stdout \<Rightarrow> if returncode \<noteq> 0 then None else Some stdout),
      w\<lparr>clock := clock w + 1, fetched := fetched w @ [url]\<rparr>)"

section \<open>The Daily Sun crawler: \<open>daily_sun_crawler.py\<close>\<close>

text \<open>
  What BeautifulSoup and \<open>datetime\<close> read from a page: the \<open>href\<close> of every link in
  document order, the headline, the date string, and the text of the body element
  (\<open>None\<close> without one). The environment of a run is the Unicode database, the network,
  this reader and \<open>json.loads\<close>.
\<close>

record html_reader =
  find_links :: "ustr \<Rightarrow> ustr list"
  headline :: "ustr \<Rightarrow> ustr"
  published :: "ustr \<Rightarrow> ustr"
  body_get_text :: "ustr \<Rightarrow> ustr option"


text \<open>
  The crawler object, the local variables of \<open>crawl\<close> for the category at hand, and the
  world. \<open>ds_init\<close> is \<open>__init__\<close>; the dictionary \<open>self.categories\<close> is never read and
  is left out. The file on disk may hold the lines of an earlier run.
\<close>

record ds_crawler = world +
  base_url :: ustr
  target_count :: int
  collected_count :: int
  category_urls :: "ustr list"
  category_collected :: int
  page :: nat
  seen_urls :: "ustr set"
  last_id :: "ustr option"








definition has_body :: "json \<Rightarrow> bool" where
  "has_body article =
     (truthy article \<and> (case doc_field (u ''body'') article of None \<Rightarrow> False | Some b \<Rightarrow> truthy b))"











text \<open>
  What holds during the run of one category that started with \<open>k\<close> documents on the
  disk: nothing is left in the buffer, the documents written since have distinct URLs,
  which are exactly \<open>seen_urls\<close>, \<open>category_collected\<close> is their number and is at
  most \<open>target_count\<close>, and every document on the disk has a body that is not empty.
  \<open>ds_grows\<close> relates a state to a later one of the same category.
\<close>

definition all_docs :: "'a world_scheme \<Rightarrow> json list" where
  "all_docs w = disk (out w) @ buffer (out w)"

definition ds_cat_inv :: "nat \<Rightarrow> ds_crawler \<Rightarrow> bool" where
  "ds_cat_inv k st =
     (buffer (out st) = [] \<and>
      k \<le> length (disk (out st)) \<and>
      distinct (map (doc_field (u ''url'')) (drop k (disk (out st)))) \<and>
      set (map (doc_field (u ''url'')) (drop k (disk (out st)))) = (\<lambda>x. Some (JStr x)) ` seen_urls st \<and>
      category_collected st = int (length (drop k (disk (out st)))) \<and>
      category_collected st \<le> target_count st \<and>
      list_all has_body (disk (out st)))"

definition ds_grows :: "ds_crawler \<Rightarrow> ds_crawler \<Rightarrow> bool" where
  "ds_grows st st' =
     (target_count st' = target_count st \<and> base_url st' = base_url st \<and>
      category_urls st' = category_urls st \<and>
      seen_urls st \<subseteq> seen_urls st' \<and>
      (\<exists>new. all_docs st' = all_docs st @ new) \<and>
      collected_count st' - collected_count st = category_collected st' - category_collected st)"




section \<open>The Kaler Kantho crawler: \<open>kalerkantho_crawler.py\<close>\<close>

text \<open>
  The environment of a run: the network, \<open>json.loads\<close>, \<open>datetime.strptime\<close> with
  the format \<open>%Y-%m-%d %H:%M:%S\<close> (the year, month and day of the date, \<open>None\<close> where
  it raises \<open>ValueError\<close>), the text BeautifulSoup extracts from an HTML fragment once
  scripts and styles are removed, and the text an f-string gives a decoded value that
  is neither a string nor an integer. The crawler object carries the local variables
  \<open>category_collected\<close> and \<open>page\<close> of \<open>crawl\<close> and the world; its fields have the
  prefix \<open>kk_\<close> to keep them apart from those of the Daily Sun crawler.
\<close>

record kk_env =
  kk_curl :: "nat \<Rightarrow> ustr \<Rightarrow> curl_result"
  kk_json_loads :: "ustr \<Rightarrow> json option"
  strptime :: "ustr \<Rightarrow> (nat \<times> nat \<times> nat) option"
  get_text :: "ustr \<Rightarrow> ustr"
  py_repr :: "json \<Rightarrow> ustr"

definition py_format :: "kk_env \<Rightarrow> json \<Rightarrow> ustr" where
  "py_format env v =
     (case v of
        JStr s \<Rightarrow> s
      | JInt n \<Rightarrow> (if n < 0 then 45 # py_str (nat (- n)) else py_str (nat n))
      | _ \<Rightarrow> py_repr env v)"

definition two_digits :: "nat \<Rightarrow> ustr" where
  "two_digits n = (if n < 10 then 48 # py_str n else py_str n)"

record kk_crawler = world +
  kk_base_url :: ustr
  kk_target_count :: int
  kk_collected_count :: int
  build_id :: "ustr option"
  kk_category_collected :: int
  kk_page :: nat

definition kk_init :: "json list \<Rightarrow> int \<Rightarrow> kk_crawler" where
  "kk_init old_file target =
     \<lparr>clock = 0, fetched = [], out = \<lparr>disk = old_file, buffer = []\<rparr>, raised = None,
      out_of_fuel = False,
      kk_base_url = u ''https://www.kalerkantho.com'', kk_target_count = target,
      kk_collected_count = 0, build_id = None, kk_category_collected = 0, kk_page = 1\<rparr>"

definition kk_fetch_url :: "kk_env \<Rightarrow> ustr \<Rightarrow> kk_crawler \<Rightarrow> ustr option \<times> kk_crawler" where
  "kk_fetch_url env url st = curl_fetch_url (kk_curl env) url st"

text \<open>
  \<open>get_build_id\<close> fetches the home page and searches it for \<open>"buildId":"(.*?)"\<close>; the
  known build id is the fallback in every other case, so the method always returns
  \<open>True\<close>.
\<close>

definition known_build_id :: ustr where
  "known_build_id = u ''kk-build-0.5.95''"

definition get_build_id :: "kk_env \<Rightarrow> kk_crawler \<Rightarrow> bool \<times> kk_crawler" where
  "get_build_id env st =
     (let (content, st1) = kk_fetch_url env (kk_base_url st) st in
      case content of
        None \<Rightarrow> (True, st1\<lparr>build_id := Some known_build_id\<rparr>)
      | Some c \<Rightarrow>
          if c = [] \<or> contains c (u ''Just a moment'') then
            (True, st1\<lparr>build_id := Some known_build_id\<rparr>)
          else
            (case search_run (\<lambda>ch. ch \<noteq> 10 \<and> ch \<noteq> 34) False
                    (34 # u ''buildId'' @ [34, 58, 34]) [34] c of
               Some b \<Rightarrow> (True, st1\<lparr>build_id := Some b\<rparr>)
             | None \<Rightarrow> (True, st1\<lparr>build_id := Some known_build_id\<rparr>)))"

text \<open>\<open>d.get(k, {})\<close> on a decoded value: only a dictionary has \<open>get\<close>.\<close>

definition get_or_empty :: "ustr \<Rightarrow> json \<Rightarrow> error + json" where
  "get_or_empty k d =
     (case d of
        JObj kvs \<Rightarrow> Inr (case map_of kvs k of None \<Rightarrow> JObj [] | Some v \<Rightarrow> v)
      | _ \<Rightarrow> Inl AttributeError)"

definition clean_html :: "kk_env \<Rightarrow> json \<Rightarrow> error + ustr" where
  "clean_html env html_content =
     (if \<not> truthy html_content then Inr []
      else (case html_content of
              JStr h \<Rightarrow> Inr (join_space (py_split (get_text env h)))
            | _ \<Rightarrow> Inl TypeError))"

text \<open>
  \<open>fetch_article\<close>: \<open>None\<close> when the date does not parse, the page cannot be fetched or
  decoded, or \<open>details\<close> is empty; otherwise the dictionary built from \<open>n_head\<close> and
  the cleaned \<open>n_details\<close>. \<open>strptime\<close> on a value that is not a string raises
  \<open>TypeError\<close>, and \<open>get\<close> on a value that is not a dictionary raises
  \<open>AttributeError\<close>; nothing in \<open>crawl\<close> catches them.
\<close>

definition kk_article_url :: "kk_env \<Rightarrow> ustr \<Rightarrow> ustr \<Rightarrow> json \<Rightarrow> nat \<times> nat \<times> nat \<Rightarrow> json \<Rightarrow> ustr" where
  "kk_article_url env base bid category_slug dt n_id =
     (case dt of (y, m, d) \<Rightarrow>
        base @ u ''/_next/data/'' @ bid @ u ''/online/'' @ py_format env category_slug @ [47] @
        py_str y @ [47] @ two_digits m @ [47] @ two_digits d @ [47] @ py_format env n_id @ u ''.json'')"

definition kk_public_url :: "kk_env \<Rightarrow> ustr \<Rightarrow> json \<Rightarrow> nat \<times> nat \<times> nat \<Rightarrow> json \<Rightarrow> ustr" where
  "kk_public_url env base category_slug dt n_id =
     (case dt of (y, m, d) \<Rightarrow>
        base @ u ''/online/'' @ py_format env category_slug @ [47] @
        py_str y @ [47] @ two_digits m @ [47] @ two_digits d @ [47] @ py_format env n_id)"

definition kk_article :: "ustr \<Rightarrow> json \<Rightarrow> json \<Rightarrow> json \<Rightarrow> ustr \<Rightarrow> json" where
  "kk_article public_url title date_str category_slug body_text =
     JObj [(u ''url'', JStr public_url), (u ''title'', title), (u ''date'', date_str),
           (u ''category'', category_slug), (u ''body'', JStr body_text),
           (u ''tokens'', JArr (map JStr (py_split body_text))),
           (u ''language'', JStr (u ''bn''))]"

definition bid_of :: "kk_crawler \<Rightarrow> ustr" where
  "bid_of st = (case build_id st of None \<Rightarrow> u ''None'' | Some b \<Rightarrow> b)"

definition kk_fetch_article ::
  "kk_env \<Rightarrow> json \<Rightarrow> json \<Rightarrow> json \<Rightarrow> kk_crawler \<Rightarrow> (error + json option) \<times> kk_crawler" where
  "kk_fetch_article env category_slug date_str n_id st =
     (case date_str of
        JStr ds \<Rightarrow>
          (case strptime env ds of
             None \<Rightarrow> (Inr None, st)
           | Some dt \<Rightarrow>
               (let url = kk_article_url env (kk_base_url st) (bid_of st) category_slug dt n_id;
                    (content, st1) = kk_fetch_url env url st
                in case content of
                     None \<Rightarrow> (Inr None, st1)
                   | Some c \<Rightarrow>
                       if c = [] then (Inr None, st1)
                       else
                         (case kk_json_loads env c of
                            None \<Rightarrow> (Inr None, st1)
                          | Some data \<Rightarrow>
                              (case get_or_empty (u ''pageProps'') data of
                                 Inl e \<Rightarrow> (Inl e, st1)
                               | Inr pp \<Rightarrow>
                                   (case get_or_empty (u ''details'') pp of
                                      Inl e \<Rightarrow> (Inl e, st1)
                                    | Inr details \<Rightarrow>
                                        if \<not> truthy details then (Inr None, st1)
                                        else
                                          (case details of
                                             JObj kvs \<Rightarrow>
                                               (case clean_html env
                                                       (case map_of kvs (u ''n_details'') of
                                                          None \<Rightarrow> JStr [] | Some v \<Rightarrow> v) of
                                                  Inl e \<Rightarrow> (Inl e, st1)
                                                | Inr body_text \<Rightarrow>
                                                    (Inr (Some (kk_article
                                                       (kk_public_url env (kk_base_url st)
                                                          category_slug dt n_id)
                                                       (case map_of kvs (u ''n_head'') of
                                                          None \<Rightarrow> JStr [] | Some v \<Rightarrow> v)
                                                       date_str category_slug body_text)), st1))
                                           | _ \<Rightarrow> (Inl AttributeError, st1)))))))
      | _ \<Rightarrow> (Inl TypeError, st))"

definition category_target :: int where
  "category_target = 150"

text \<open>The slug of one list item: \<open>item['cat_name'].get('slug')\<close> when the item has a
  \<open>cat_name\<close> that is not empty, and the category otherwise.\<close>

definition item_slug :: "(ustr \<times> json) list \<Rightarrow> ustr \<Rightarrow> error + json" where
  "item_slug item category =
     (case map_of item (u ''cat_name'') of
        None \<Rightarrow> Inr (JStr category)
      | Some cn \<Rightarrow>
          if \<not> truthy cn then Inr (JStr category)
          else (case cn of
                  JObj kvs \<Rightarrow>
                    (case map_of kvs (u ''slug'') of
                       None \<Rightarrow> Inr (JStr category)
                     | Some sl \<Rightarrow> if truthy sl then Inr sl else Inr (JStr category))
                | _ \<Rightarrow> Inl AttributeError))"

definition item_get :: "ustr \<Rightarrow> (ustr \<times> json) list \<Rightarrow> json" where
  "item_get k item = (case map_of item k of None \<Rightarrow> JNull | Some v \<Rightarrow> v)"

text \<open>
  The three statements that accept an article: write, count for the category, count for
  the crawler. There is no \<open>f.flush()\<close>. \<open>kk_items\<close> is the loop over the items of one
  list page, \<open>kk_pages\<close> the \<open>while category_collected < category_target\<close> loop, which
  takes a budget of iterations as the loop of the Daily Sun crawler does, and
  \<open>kk_crawl\<close> is \<open>crawl\<close>: the file is closed, and so flushed, when the \<open>with\<close>
  block is left.
\<close>

definition kk_persist :: "json \<Rightarrow> kk_crawler \<Rightarrow> kk_crawler" where
  "kk_persist article_doc st =
     st\<lparr>out := file_write article_doc (out st),
        kk_category_collected := kk_category_collected st + 1,
        kk_collected_count := kk_collected_count st + 1\<rparr>"

fun kk_items :: "kk_env \<Rightarrow> ustr \<Rightarrow> json list \<Rightarrow> kk_crawler \<Rightarrow> kk_crawler" where
  "kk_items env category [] st = st"
| "kk_items env category (item # rest) st =
     (if kk_category_collected st \<ge> category_target then st
      else
        (case item of
           JObj kvs \<Rightarrow>
             (case item_slug kvs category of
                Inl e \<Rightarrow> st\<lparr>raised := Some e\<rparr>
              | Inr current_slug \<Rightarrow>
                  if truthy (item_get (u ''n_id'') kvs) \<and> truthy (item_get (u ''start_at'') kvs) then
                    (let (res, st1) = kk_fetch_article env current_slug
                                        (item_get (u ''start_at'') kvs) (item_get (u ''n_id'') kvs) st
                     in case res of
                          Inl e \<Rightarrow> st1\<lparr>raised := Some e\<rparr>
                        | Inr None \<Rightarrow> kk_items env category rest st1
                        | Inr (Some article_doc) \<Rightarrow>
                            if truthy article_doc
                            then kk_items env category rest (kk_persist article_doc st1)
                            else kk_items env category rest st1)
                  else kk_items env category rest st)
         | _ \<Rightarrow> st\<lparr>raised := Some AttributeError\<rparr>))"

definition kk_category_url :: "ustr \<Rightarrow> ustr \<Rightarrow> ustr \<Rightarrow> nat \<Rightarrow> ustr" where
  "kk_category_url base bid category pg =
     base @ u ''/_next/data/'' @ bid @ u ''/online/'' @ category @ u ''.json?page='' @ py_str pg"

fun kk_pages :: "nat \<Rightarrow> kk_env \<Rightarrow> ustr \<Rightarrow> kk_crawler \<Rightarrow> kk_crawler" where
  "kk_pages 0 env category st =
     (if kk_category_collected st < category_target then st\<lparr>out_of_fuel := True\<rparr> else st)"
| "kk_pages (Suc n) env category st =
     (if \<not> kk_category_collected st < category_target then st
      else
        (let cat_url = kk_category_url (kk_base_url st) (bid_of st) category (kk_page st);
             (content, st1) = kk_fetch_url env cat_url st
         in case content of
              None \<Rightarrow> st1
            | Some c \<Rightarrow>
                if c = [] then st1
                else
                  (case kk_json_loads env c of
                     None \<Rightarrow> st1
                   | Some data \<Rightarrow>
                       (case get_or_empty (u ''pageProps'') data of
                          Inl e \<Rightarrow> st1\<lparr>raised := Some e\<rparr>
                        | Inr pp \<Rightarrow>
                            (case pp of
                               JObj kvs \<Rightarrow>
                                 (let news_list = (case map_of kvs (u ''newsData'') of
                                                     None \<Rightarrow> JArr [] | Some v \<Rightarrow> v)
                                  in if \<not> truthy news_list then st1
                                     else
                                       (case news_list of
                                          JArr items \<Rightarrow>
                                            (let st2 = kk_items env category items st1
                                             in if raised st2 = None
                                                then kk_pages n env category
                                                       (st2\<lparr>kk_page := kk_page st2 + 1\<rparr>)
                                                else st2)
                                        | JObj ks \<Rightarrow> st1\<lparr>raised := Some AttributeError\<rparr>
                                        | JStr s \<Rightarrow> st1\<lparr>raised := Some AttributeError\<rparr>
                                        | _ \<Rightarrow> st1\<lparr>raised := Some TypeError\<rparr>))
                             | _ \<Rightarrow> st1\<lparr>raised := Some AttributeError\<rparr>)))))"

definition kk_categories_list :: "ustr list" where
  "kk_categories_list =
     [u ''national'', u ''entertainment'', u ''Islamic-lifestylie'', u ''Politics'', u ''lifestyle'']"

fun kk_categories :: "nat \<Rightarrow> kk_env \<Rightarrow> ustr list \<Rightarrow> kk_crawler \<Rightarrow> kk_crawler" where
  "kk_categories fuel env [] st = st"
| "kk_categories fuel env (category # rest) st =
     (let st1 = kk_pages fuel env category (st\<lparr>kk_category_collected := 0, kk_page := 1\<rparr>)
      in if out_of_fuel st1 \<or> raised st1 \<noteq> None then st1
         else kk_categories fuel env rest st1)"

definition kk_crawl :: "nat \<Rightarrow> kk_env \<Rightarrow> kk_crawler \<Rightarrow> kk_crawler" where
  "kk_crawl fuel env st =
     (let (found, st0) = get_build_id env st in
      if \<not> found then st0
      else
        (let st1 = kk_categories fuel env kk_categories_list (st0\<lparr>out := file_open_w\<rparr>)
         in if out_of_fuel st1 then st1 else st1\<lparr>out := file_flush (out st1)\<rparr>))"

text \<open>
  What holds during the run of one category: the counter of the category is at most
  \<open>category_target\<close>. \<open>kk_grows\<close> relates a state to a later one of the same
  category: both counters grew by the same amount, the file only gained documents, and
  nothing reached the disk.
\<close>

definition kk_inv :: "kk_crawler \<Rightarrow> bool" where
  "kk_inv st = (kk_category_collected st \<le> category_target)"

definition kk_grows :: "kk_crawler \<Rightarrow> kk_crawler \<Rightarrow> bool" where
  "kk_grows st st' =
     (kk_collected_count st' - kk_collected_count st =
        kk_category_collected st' - kk_category_collected st \<and>
      kk_category_collected st \<le> kk_category_collected st' \<and>
      (\<exists>new. all_docs st' = all_docs st @ new) \<and>
      disk (out st') = disk (out st))"

text \<open>
  A site for concrete runs. The home page has no build id, so the fallback is used. The
  first two list pages the crawler asks for both hold the same item twice, and the detail
  page of that item has the body \<open>b\<close>; every later request fails. The network answers
  by the number of the request: 0 is the home page, 1 and 4 are list pages, 2, 3, 5 and 6
  are detail pages. \<open>listed_article\<close> is the document \<open>fetch_article\<close> builds for the
  item, and \<open>national_doc\<close> is that document for the category \<open>national\<close>, written
  out.
\<close>

definition news_item :: json where
  "news_item = JObj [(u ''n_id'', JInt 7), (u ''start_at'', JStr (u ''2026-01-22 13:32:00''))]"

definition list_page :: json where
  "list_page = JObj [(u ''pageProps'', JObj [(u ''newsData'', JArr [news_item, news_item])])]"

definition detail_page :: "ustr \<Rightarrow> json" where
  "detail_page b =
     JObj [(u ''pageProps'',
            JObj [(u ''details'', JObj [(u ''n_head'', JStr (u ''T'')), (u ''n_details'', JStr b)])])]"

definition env_listing :: "ustr \<Rightarrow> kk_env" where
  "env_listing b =
     \<lparr>kk_curl = (\<lambda>n url. if n = 0 then Curl_exit 0 (u ''home'')
                          else if n = 1 \<or> n = 4 then Curl_exit 0 (u ''L'')
                          else if n = 2 \<or> n = 3 \<or> n = 5 \<or> n = 6 then Curl_exit 0 (u ''D'')
                          else Curl_raised),
      kk_json_loads = (\<lambda>s. if s = u ''L'' then Some list_page
                            else if s = u ''D'' then Some (detail_page b) else None),
      strptime = (\<lambda>s. Some (2026, 1, 22)),
      get_text = (\<lambda>h. h),
      py_repr = (\<lambda>v. [])\<rparr>"

definition listed_body :: "ustr \<Rightarrow> ustr" where
  "listed_body b = (if b = [] then [] else join_space (py_split b))"

definition listed_article :: "ustr \<Rightarrow> ustr \<Rightarrow> ustr \<Rightarrow> json" where
  "listed_article b base category =
     kk_article (kk_public_url (env_listing b) base (JStr category) (2026, 1, 22) (JInt 7))
       (JStr (u ''T'')) (JStr (u ''2026-01-22 13:32:00'')) (JStr category) (listed_body b)"

definition listed_url :: "ustr \<Rightarrow> kk_crawler \<Rightarrow> ustr \<Rightarrow> ustr" where
  "listed_url b st category =
     kk_article_url (env_listing b) (kk_base_url st) (bid_of st) (JStr category) (2026, 1, 22) (JInt 7)"

definition national_doc :: "ustr \<Rightarrow> json" where
  "national_doc body_text =
     JObj [(u ''url'', JStr (u ''https://www.kalerkantho.com/online/national/2026/01/22/7'')),
           (u ''title'', JStr (u ''T'')), (u ''date'', JStr (u ''2026-01-22 13:32:00'')),
           (u ''category'', JStr (u ''national'')), (u ''body'', JStr body_text),
           (u ''tokens'', JArr (map JStr (py_split body_text))),
           (u ''language'', JStr (u ''bn''))]"

section \<open>The Prothom Alo spider: \<open>prothomalo_bangladesh.py\<close>\<close>

text \<open>
  What a callback reads from a response: its URL, its text, the texts selected by
  \<open>div.story-element-text p::text\<close>, the \<open>datetime\<close> attribute of the first \<open>time\<close>
  element (\<open>None\<close> without one) and the \<open>meta\<close> dictionary of the request.
  \<open>parse_article\<close> yields one item, which the feed export writes.
\<close>

record pa_response =
  pa_url :: ustr
  pa_text :: ustr
  pa_paragraphs :: "ustr list"
  pa_datetime :: json
  pa_meta :: "(ustr \<times> json) list"

definition meta_get :: "ustr \<Rightarrow> pa_response \<Rightarrow> json" where
  "meta_get k response = (case map_of (pa_meta response) k of None \<Rightarrow> JNull | Some v \<Rightarrow> v)"

definition pa_parse_article :: "pa_response \<Rightarrow> json" where
  "pa_parse_article response =
     (let body = join_space (filter (\<lambda>p. p \<noteq> []) (map py_strip (pa_paragraphs response)))
      in JObj [(u ''title'', meta_get (u ''title'') response), (u ''body'', JStr body),
               (u ''url'', JStr (pa_url response)), (u ''date'', pa_datetime response),
               (u ''language'', JStr (u ''bn'')), (u ''author'', meta_get (u ''author'') response),
               (u ''tokens'', JInt (int (length (py_split body)))),
               (u ''section'', JStr (u ''bangladesh'')),
               (u ''subcategory'', meta_get (u ''subcategory'') response),
               (u ''source'', JStr (u ''Prothom Alo'')),
               (u ''content_type'', JStr (u ''full-article''))])"

text \<open>An article page without text paragraphs, as a photo story has.\<close>

definition photo_story :: pa_response where
  "photo_story =
     \<lparr>pa_url = u ''https://www.prothomalo.com/bangladesh/photo'', pa_text = u ''<html></html>'',
      pa_paragraphs = [], pa_datetime = JNull,
      pa_meta = [(u ''title'', JStr (u ''T'')), (u ''subcategory'', JStr (u ''bangladesh''))]\<rparr>"

section \<open>Concrete runs of the NewAge and Daily Sun crawlers\<close>












section \<open>Properties of the indexer\<close>

lemma tok_total: "\<exists>toks. tokenize U (JStr s) lang = Inr toks"
  unfolding tokenize_def Let_def by simp

lemma is_documentD:
  assumes "is_document json_loads raw"
  shows "py_strip raw \<noteq> [] \<and>
         (\<exists>kvs. json_loads (py_strip raw) = Some (JObj kvs) \<and>
            (map_of kvs (u ''body'') = None \<or> (\<exists>s. map_of kvs (u ''body'') = Some (JStr s))))"
proof -
  from assms have ne: "py_strip raw \<noteq> []" by (simp add: is_document_def)
  from assms obtain j where j: "json_loads (py_strip raw) = Some j"
    by (cases "json_loads (py_strip raw)") (simp_all add: is_document_def)
  from assms j obtain kvs where k: "j = JObj kvs"
    by (cases j) (simp_all add: is_document_def)
  from assms j k have "map_of kvs (u ''body'') = None \<or> (\<exists>s. map_of kvs (u ''body'') = Some (JStr s))"
  proof (cases "map_of kvs (u ''body'')")
    case None
    then show ?thesis by simp
  next
    case (Some v)
    with assms j k show ?thesis by (cases v) (simp_all add: is_document_def)
  qed
  with ne j k show ?thesis by simp
qed

lemma index_line_document:
  assumes "is_document json_loads raw"
  shows "\<exists>st'. index_line U json_loads lang n raw st = Inr st' \<and>
           total_docs st' = total_docs st + 1 \<and> skipped_lines st' = skipped_lines st \<and>
           warnings st' = warnings st"
proof -
  from is_documentD[OF assms] obtain kvs where
    ne: "py_strip raw \<noteq> []" and j: "json_loads (py_strip raw) = Some (JObj kvs)" and
    b: "map_of kvs (u ''body'') = None \<or> (\<exists>s. map_of kvs (u ''body'') = Some (JStr s))"
    by blast
  from b obtain s where g: "doc_get_body (JObj kvs) = Inr (JStr s)"
    by (auto simp: doc_get_body_def)
  from tok_total obtain toks where t: "tokenize U (JStr s) lang = Inr toks"
    by blast
  show ?thesis using ne j g t by (simp add: index_line_def Let_def)
qed

lemma index_line_malformed:
  assumes "is_malformed json_loads raw"
  shows "index_line U json_loads lang n raw st =
           Inr (st\<lparr>skipped_lines := skipped_lines st + 1, warnings := warnings st @ [n]\<rparr>)"
  using assms by (simp add: is_malformed_def index_line_def Let_def)

lemma index_lines_documents:
  assumes "list_all (is_document json_loads) ls"
  shows "\<exists>st'. index_lines U json_loads lang n ls st = Inr st' \<and>
           total_docs st' = total_docs st + length ls \<and> skipped_lines st' = skipped_lines st \<and>
           warnings st' = warnings st"
  using assms
proof (induction ls arbitrary: n st)
  case Nil
  then show ?case by simp
next
  case (Cons raw rest)
  from Cons.prems have d: "is_document json_loads raw" and r: "list_all (is_document json_loads) rest"
    by simp_all
  from index_line_document[OF d, of U lang n st] obtain st1 where
    s1: "index_line U json_loads lang n raw st = Inr st1" "total_docs st1 = total_docs st + 1"
        "skipped_lines st1 = skipped_lines st" "warnings st1 = warnings st" by blast
  from Cons.IH[OF r, of "n + 1" st1] obtain st2 where
    s2: "index_lines U json_loads lang (n + 1) rest st1 = Inr st2"
        "total_docs st2 = total_docs st1 + length rest" "skipped_lines st2 = skipped_lines st1"
        "warnings st2 = warnings st1" by blast
  show ?case using s1 s2 by simp
qed

lemma index_lines_append:
  "index_lines U json_loads lang n (xs @ ys) st =
     (case index_lines U json_loads lang n xs st of
        Inl e \<Rightarrow> Inl e
      | Inr st' \<Rightarrow> index_lines U json_loads lang (n + length xs) ys st')"
proof (induction xs arbitrary: n st)
  case Nil
  show ?case by simp
next
  case (Cons x xs)
  show ?case
  proof (cases "index_line U json_loads lang n x st")
    case (Inl e)
    then show ?thesis by simp
  next
    case (Inr s1)
    then show ?thesis using Cons.IH[of "n + 1" s1] by (simp split: sum.split)
  qed
qed

text \<open>
  The tolerance of the loop for a line that does not decode, on a corpus file whose other
  100 lines are document lines, with the malformed line at any position:
  \<open>build_index\<close> returns, its statistics report 100 documents and one skipped line,
  and the only warning is for the line number of the malformed line, so the lines after
  it are still read.
\<close>

theorem malformed_line_tolerance:
  assumes pre: "list_all (is_document json_loads) pre"
      and post: "list_all (is_document json_loads) post"
      and hundred: "length pre + length post = 100"
      and bad: "is_malformed json_loads bad"
  shows "\<exists>ix dl st fin.
           build_index U json_loads lang (pre @ bad # post) = Inr (ix, dl, st) \<and>
           total_documents st = 100 \<and> stat_skipped_lines st = 1 \<and>
           index_lines U json_loads lang 1 (pre @ bad # post) index_init = Inr fin \<and>
           warnings fin = [length pre + 1]"
proof -
  from index_lines_documents[OF pre, of U lang 1 index_init] obtain s1 where
    s1: "index_lines U json_loads lang 1 pre index_init = Inr s1"
        "total_docs s1 = length pre" "skipped_lines s1 = 0" "warnings s1 = []"
    by (auto simp: index_init_def)
  define s2 where "s2 = s1\<lparr>skipped_lines := skipped_lines s1 + 1, warnings := warnings s1 @ [1 + length pre]\<rparr>"
  have b: "index_line U json_loads lang (1 + length pre) bad s1 = Inr s2"
    unfolding s2_def by (rule index_line_malformed[OF bad])
  from index_lines_documents[OF post, of U lang "1 + length pre + 1" s2] obtain s3 where
    s3: "index_lines U json_loads lang (1 + length pre + 1) post s2 = Inr s3"
        "total_docs s3 = total_docs s2 + length post" "skipped_lines s3 = skipped_lines s2"
        "warnings s3 = warnings s2" by blast
  have run: "index_lines U json_loads lang 1 (pre @ bad # post) index_init = Inr s3"
    using s1 b s3 by (simp add: index_lines_append)
  have "total_docs s3 = 100" "skipped_lines s3 = 1" "warnings s3 = [length pre + 1]"
    using s1 s3 hundred by (simp_all add: s2_def)
  then show ?thesis using run by (simp add: build_index_def make_stats_def)
qed

lemma strip_good: "py_strip (u ''{}'' @ [10]) = u ''{}''"
  by (simp add: py_strip_def u_def isspace_def)

lemma strip_bad: "py_strip (u ''{oops'' @ [10]) = u ''{oops''"
  by (simp add: py_strip_def u_def isspace_def)

theorem malformed_line_tolerance_witness:
  "\<exists>ix dl st fin.
     build_index U0 loads0 (u ''english'')
       (replicate 40 (u ''{}'' @ [10]) @ (u ''{oops'' @ [10]) # replicate 60 (u ''{}'' @ [10]))
       = Inr (ix, dl, st) \<and>
     total_documents st = 100 \<and> stat_skipped_lines st = 1 \<and>
     index_lines U0 loads0 (u ''english'') 1
       (replicate 40 (u ''{}'' @ [10]) @ (u ''{oops'' @ [10]) # replicate 60 (u ''{}'' @ [10]))
       index_init = Inr fin \<and>
     warnings fin = [41]"
proof -
  have g: "is_document loads0 (u ''{}'' @ [10])"
    by (simp add: is_document_def strip_good loads0_def) (simp add: u_def)
  have b: "is_malformed loads0 (u ''{oops'' @ [10])"
    by (simp add: is_malformed_def strip_bad loads0_def) (simp add: u_def)
  have p: "list_all (is_document loads0) (replicate 40 (u ''{}'' @ [10]))"
    using g by (simp add: list_all_iff)
  have q: "list_all (is_document loads0) (replicate 60 (u ''{}'' @ [10]))"
    using g by (simp add: list_all_iff)
  show ?thesis
    using malformed_line_tolerance[OF p q _ b, of U0 "u ''english''"] by simp
qed

lemma strip_headline: "py_strip (sink_line dumps0 headline_doc) = u ''{...}''"
  by (simp add: sink_line_def dumps0_def py_strip_def u_def isspace_def)

lemma loads_corpus_lines:
  "loads_corpus (u ''{}'') = Some (JObj [])"
  "loads_corpus (u ''{oops'') = None"
  "loads_corpus (u ''{...}'') = Some headline_doc"
  by (simp_all add: loads_corpus_def loads_headline_def) (simp_all add: u_def)

text \<open>
  Claim C7. The 100 well-formed lines of the claim need not be document lines. In
  \<open>corpus_with_headline\<close> 100 lines decode and one does not; the last line is the
  headline-only item, whose \<open>body\<close> is \<open>null\<close>. \<open>build_index\<close> skips line 100, goes
  on to line 101 and raises \<open>AttributeError\<close> there: it returns no index and no
  statistics, so no count of 100 documents and one skipped line is reported.
\<close>

theorem well_formed_null_body_aborts:
  "length (filter (\<lambda>raw. loads_corpus (py_strip raw) \<noteq> None) corpus_with_headline) = 100 \<and>
   length (filter (\<lambda>raw. loads_corpus (py_strip raw) = None) corpus_with_headline) = 1 \<and>
   loads_corpus (py_strip (sink_line dumps0 headline_doc)) = Some headline_doc \<and>
   build_index U0 loads_corpus (u ''bangla'') corpus_with_headline = Inl AttributeError"
proof -
  have g: "is_document loads_corpus (u ''{}'' @ [10])"
    by (simp add: is_document_def strip_good loads_corpus_lines) (simp add: u_def)
  have b: "is_malformed loads_corpus (u ''{oops'' @ [10])"
    by (simp add: is_malformed_def strip_bad loads_corpus_lines) (simp add: u_def)
  have p: "list_all (is_document loads_corpus) (replicate 99 (u ''{}'' @ [10]))"
    using g by (simp add: list_all_iff)
  from index_lines_documents[OF p, of U0 "u ''bangla''" 1 index_init] obtain s1 where
    s1: "index_lines U0 loads_corpus (u ''bangla'') 1 (replicate 99 (u ''{}'' @ [10])) index_init = Inr s1"
    by blast
  have m: "index_line U0 loads_corpus (u ''bangla'') 100 (u ''{oops'' @ [10]) s1 =
             Inr (s1\<lparr>skipped_lines := skipped_lines s1 + 1, warnings := warnings s1 @ [100]\<rparr>)"
    by (rule index_line_malformed[OF b])
  have n: "u ''{...}'' \<noteq> []" by (simp add: u_def)
  have h: "index_line U0 loads_corpus (u ''bangla'') 101 (sink_line dumps0 headline_doc) st =
             Inl AttributeError" for st
    unfolding index_line_def strip_headline
    by (simp add: n loads_corpus_lines)
       (simp add: headline_doc_def pa_headline_only_def doc_get_body_def tokenize_def u_def)
  have run: "build_index U0 loads_corpus (u ''bangla'') corpus_with_headline = Inl AttributeError"
    by (simp add: build_index_def corpus_with_headline_def index_lines_append s1[unfolded One_nat_def] m h)
  have c: "length (filter (\<lambda>raw. loads_corpus (py_strip raw) \<noteq> None) corpus_with_headline) = 100"
       "length (filter (\<lambda>raw. loads_corpus (py_strip raw) = None) corpus_with_headline) = 1"
    by (simp_all add: corpus_with_headline_def strip_good strip_bad strip_headline
          loads_corpus_lines)
  show ?thesis
    using run c by (simp add: strip_headline loads_corpus_lines)
qed







text \<open>
  Claim C10. A line that decodes to an object whose \<open>body\<close> is \<open>null\<close> is well-formed
  JSON, and \<open>build_index\<close> raises \<open>AttributeError\<close> on it instead of counting it.
\<close>

theorem null_body_raises:
  assumes "py_strip raw \<noteq> []"
      and "json_loads (py_strip raw) = Some (JObj kvs)"
      and "map_of kvs (u ''body'') = Some JNull"
  shows "build_index U json_loads lang (raw # rest) = Inl AttributeError"
  using assms
  by (simp add: build_index_def index_line_def doc_get_body_def tokenize_def)

theorem null_body_raises_witness:
  "build_index U0 loads_headline (u ''bangla'') [sink_line dumps0 headline_doc] = Inl AttributeError"
proof -
  have s: "py_strip (sink_line dumps0 headline_doc) = u ''{...}''"
    by (simp add: sink_line_def dumps0_def py_strip_def u_def isspace_def)
  have n: "u ''{...}'' \<noteq> []" by (simp add: u_def)
  have b: "map_of [(u ''title'', JStr (u ''T'')), (u ''body'', JNull), (u ''url'', JNull),
        (u ''date'', JNull), (u ''language'', JStr (u ''bn'')), (u ''author'', JNull),
        (u ''tokens'', JInt 1), (u ''section'', JStr (u ''bangladesh'')),
        (u ''subcategory'', JStr (u ''bangladesh'')), (u ''source'', JStr (u ''Prothom Alo'')),
        (u ''content_type'', JStr (u ''headline-only''))] (u ''body'') = Some JNull"
    by (simp add: u_def)
  show ?thesis
    using null_body_raises[of "sink_line dumps0 headline_doc" loads_headline _ U0 "u ''bangla''" "[]",
        OF _ _ b] s n
    by (simp add: headline_doc_def pa_headline_only_def loads_headline_def)
qed

text \<open>
  What the indexer does when the body is absent or empty: the line is counted, its length
  is 0 and the inverted index is unchanged.
\<close>

lemma index_line_no_body:
  assumes "py_strip raw \<noteq> []"
      and "json_loads (py_strip raw) = Some (JObj kvs)"
      and "map_of kvs (u ''body'') = None \<or> map_of kvs (u ''body'') = Some (JStr [])"
  shows "index_line U json_loads lang n raw st =
           Inr (st\<lparr>total_docs := total_docs st + 1,
                   doc_lengths := AList.update (py_str (total_docs st)) 0 (doc_lengths st)\<rparr>)"
proof -
  have g: "doc_get_body (JObj kvs) = Inr (JStr [])"
    using assms(3) by (auto simp: doc_get_body_def)
  have t: "tokenize U (JStr []) lang = Inr []"
    by (simp add: tokenize_def Let_def py_strip_def py_lower_def re_sub_punct_def py_split_def)
  show ?thesis using assms(1,2) g t
    by (simp add: index_line_def Let_def counter_def add_postings_def)
qed

section \<open>Properties of the fetch client\<close>

lemma requests_le:
  "requests (snd (fetch_attempts retries backoff env jitter idx)) \<le> length idx"
  by (induction idx) (auto simp: requests_def split: outcome.splits prod.splits)

lemma failed_step:
  assumes "attempt_failed a"
  shows "attempt_step retries backoff i a j = on_exception retries backoff i j \<or>
         (\<exists>w. attempt_step retries backoff i a j = Retry (Rate_limit_wait w))"
  using assms
  by (auto simp: attempt_failed_def attempt_step_def split: attempt.splits retry_after.splits option.splits)

lemma bases_bound:
  assumes "0 \<le> backoff" "b \<in> set (backoff_bases (sleeps (snd (fetch_attempts retries backoff env jitter idx))))"
  shows "\<exists>i \<in> set idx. b = backoff * 2 ^ i"
  using assms(2)
proof (induction idx)
  case Nil
  then show ?case by simp
next
  case (Cons i rest)
  show ?case
  proof (cases "attempt_step retries backoff i (env i) (jitter i)")
    case (Return r)
    with Cons.prems show ?thesis by simp
  next
    case (Retry s)
    obtain r evs where f: "fetch_attempts retries backoff env jitter rest = (r, evs)"
      by (cases "fetch_attempts retries backoff env jitter rest")
    show ?thesis
    proof (cases s)
      case (Rate_limit_wait w)
      with Retry f Cons.prems Cons.IH show ?thesis by auto
    next
      case (Backoff_wait b' j')
      have "b' = backoff * 2 ^ i"
        using Retry Backoff_wait
        by (auto simp: attempt_step_def on_exception_def split: attempt.splits retry_after.splits option.splits if_splits)
      with Retry Backoff_wait f Cons.prems Cons.IH show ?thesis by auto
    qed
  qed
qed


lemma bases_sorted:
  assumes "0 \<le> backoff" "sorted idx"
  shows "sorted (backoff_bases (sleeps (snd (fetch_attempts retries backoff env jitter idx))))"
  using assms(2)
proof (induction idx)
  case Nil
  then show ?case by simp
next
  case (Cons i rest)
  from Cons.prems have sr: "sorted rest" and le: "\<forall>k \<in> set rest. i \<le> k" by auto
  note IH = Cons.IH[OF sr]
  show ?case
  proof (cases "attempt_step retries backoff i (env i) (jitter i)")
    case (Return r)
    then show ?thesis by simp
  next
    case (Retry s)
    obtain r evs where f: "fetch_attempts retries backoff env jitter rest = (r, evs)"
      by (cases "fetch_attempts retries backoff env jitter rest")
    show ?thesis
    proof (cases s)
      case (Rate_limit_wait w)
      with Retry f IH show ?thesis by simp
    next
      case (Backoff_wait b' j')
      have b': "b' = backoff * 2 ^ i"
        using Retry Backoff_wait
        by (auto simp: attempt_step_def on_exception_def
              split: attempt.splits retry_after.splits option.splits if_splits)
      have "b' \<le> b" if "b \<in> set (backoff_bases (sleeps evs))" for b
      proof -
        from bases_bound[OF assms(1), of b retries env jitter rest] that f
        obtain k where k: "k \<in> set rest" "b = backoff * 2 ^ k" by auto
        with le have "i \<le> k" by simp
        then have "(2::int) ^ i \<le> 2 ^ k" by (simp add: power_increasing)
        with assms(1) k b' show ?thesis by (simp add: mult_left_mono)
      qed
      with Retry Backoff_wait f IH show ?thesis by auto
    qed
  qed
qed

text \<open>
  Claim C8, as amended. The exponential backoff delays of one fetch are non-decreasing
  when the jitter is left out: attempt \<open>i\<close> waits \<open>2 ^ i\<close> seconds plus jitter, and the
  last attempt does not wait. A 429 whose \<open>Retry-After\<close> header is an integer waits
  exactly that many seconds, and a 429 without the header waits 60.
\<close>

theorem backoff_and_rate_limit_delays:
  "sorted (backoff_bases (sleeps (snd (fetch_url env jitter)))) \<and>
   attempt_step 3 1 i (Response 429 (Seconds w) body) j = Retry (Rate_limit_wait w) \<and>
   attempt_step 3 1 i (Response 429 No_header body) j = Retry (Rate_limit_wait 60) \<and>
   on_exception 3 1 i j = (if i = 2 then Return None else Retry (Backoff_wait (2 ^ i) j))"
proof -
  have "sorted (backoff_bases (sleeps (snd (fetch_url env jitter))))"
    unfolding fetch_url_def by (rule bases_sorted) simp_all
  then show ?thesis by (simp add: attempt_step_def on_exception_def)
qed

text \<open>
  The claim as stated fails when the two kinds of delay mix: a 429 without the header
  waits 60 seconds, and the timeout of the next attempt then waits 2.
\<close>

theorem mixed_delays_decrease:
  "\<not> sorted (map sleep_base (sleeps (snd (fetch_url env_429_then_timeout no_jitter))))"
  by (simp add: fetch_url_def env_429_then_timeout_def attempt_step_def on_exception_def no_jitter_def)

lemma fetch_url_first:
  assumes "\<not> attempt_failed (env 0)"
  shows "requests (snd (fetch_url env jitter)) = 1 \<and> fst (fetch_url env jitter) \<noteq> None"
  using assms
  by (auto simp: fetch_url_def attempt_failed_def attempt_step_def requests_def
        split: attempt.splits option.splits)

lemma failed_retry:
  assumes "attempt_failed a" "i \<noteq> retries - 1"
  shows "\<exists>s. attempt_step retries backoff i a j = Retry s"
  using failed_step[OF assms(1), of retries backoff i j] assms(2)
  by (auto simp: on_exception_def)

lemma failed_last:
  assumes "attempt_failed a"
  shows "attempt_step 3 1 2 a j = Return None \<or> (\<exists>s. attempt_step 3 1 2 a j = Retry s)"
  using failed_step[OF assms, of 3 1 2 j]
  by (auto simp: on_exception_def)

lemma fetch_url_second:
  assumes "attempt_failed (env 0)" "\<not> attempt_failed (env 1)"
  shows "requests (snd (fetch_url env jitter)) = 2 \<and> fst (fetch_url env jitter) \<noteq> None"
proof -
  from failed_retry[OF assms(1), of 0 3 1 "jitter 0"] obtain s0 where
    s0: "attempt_step 3 1 0 (env 0) (jitter 0) = Retry s0" by auto
  from assms(2) obtain t where "attempt_step 3 1 1 (env 1) (jitter 1) = Return (Some t)"
    by (auto simp: attempt_failed_def attempt_step_def split: attempt.splits option.splits)
  with s0 show ?thesis by (simp add: fetch_url_def requests_def)
qed

lemma fetch_url_third:
  assumes "attempt_failed (env 0)" "attempt_failed (env 1)"
  shows "requests (snd (fetch_url env jitter)) = 3 \<and>
         (attempt_failed (env 2) \<longrightarrow> fst (fetch_url env jitter) = None)"
proof -
  from failed_retry[OF assms(1), of 0 3 1 "jitter 0"] obtain s0 where
    s0: "attempt_step 3 1 0 (env 0) (jitter 0) = Retry s0" by auto
  from failed_retry[OF assms(2), of 1 3 1 "jitter 1"] obtain s1 where
    s1: "attempt_step 3 1 1 (env 1) (jitter 1) = Retry s1" by auto
  show ?thesis
  proof (cases "attempt_step 3 1 2 (env 2) (jitter 2)")
    case (Return r)
    have "attempt_failed (env 2) \<longrightarrow> r = None"
      using failed_last[of "env 2" "jitter 2"] Return by auto
    with s0 s1 Return show ?thesis by (simp add: fetch_url_def requests_def)
  next
    case (Retry s2)
    with s0 s1 show ?thesis by (simp add: fetch_url_def requests_def)
  qed
qed

text \<open>
  Claim C4, as amended. \<open>fetch_url\<close> makes at most three requests. It makes the next
  request after every failed attempt, whatever the failure is (an exception, a timeout,
  a 429 or any other status of 400 or more), stops at the first attempt that returns the
  page, and returns \<open>None\<close> when all three fail.
\<close>

theorem fetch_url_retries_every_failure:
  "requests (snd (fetch_url env jitter)) \<le> 3 \<and>
   (\<not> attempt_failed (env 0) \<longrightarrow>
      requests (snd (fetch_url env jitter)) = 1 \<and> fst (fetch_url env jitter) \<noteq> None) \<and>
   (attempt_failed (env 0) \<and> \<not> attempt_failed (env 1) \<longrightarrow>
      requests (snd (fetch_url env jitter)) = 2 \<and> fst (fetch_url env jitter) \<noteq> None) \<and>
   (attempt_failed (env 0) \<and> attempt_failed (env 1) \<longrightarrow>
      requests (snd (fetch_url env jitter)) = 3) \<and>
   (attempt_failed (env 0) \<and> attempt_failed (env 1) \<and> attempt_failed (env 2) \<longrightarrow>
      fst (fetch_url env jitter) = None)"
proof -
  have "requests (snd (fetch_url env jitter)) \<le> 3"
    using requests_le[of 3 1 env jitter "[0, 1, 2]"] by (simp add: fetch_url_def)
  then show ?thesis
    using fetch_url_first[of env jitter] fetch_url_second[of env jitter]
      fetch_url_third[of env jitter] by blast
qed

theorem fetch_url_retries_every_failure_witness:
  "requests (snd (fetch_url env_403_then_ok no_jitter)) = 2 \<and>
   fst (fetch_url env_403_then_ok no_jitter) \<noteq> None"
  using fetch_url_retries_every_failure[of env_403_then_ok no_jitter]
  by (simp add: attempt_failed_def env_403_then_ok_def)

text \<open>A 404 is not a single attempt: the server that always answers 404 is asked three
  times.\<close>

theorem status_404_is_retried:
  "requests (snd (fetch_url env_404 no_jitter)) = 3"
  by (simp add: fetch_url_def env_404_def attempt_step_def on_exception_def requests_def)

section \<open>Properties of the NewAge crawler\<close>

lemma set_pc_simps [simp]:
  "na_target_count (set_pc i p s) = na_target_count s"
  "collected_counts (set_pc i p s) = collected_counts s"
  "visited_urls (set_pc i p s) = visited_urls s"
  "na_output_file (set_pc i p s) = na_output_file s"
  "length (tasks (set_pc i p s)) = length (tasks s)"
  by (simp_all add: set_pc_def)






lemma set_pc_saved [simp]:
  "saved_urls (set_pc i p s) = saved_urls s" "saved_in cat (set_pc i p s) = saved_in cat s"
  by (simp_all add: saved_urls_def saved_in_def)

lemma save_document_simps [simp]:
  "na_target_count (save_document d s) = na_target_count s"
  "collected_counts (save_document d s) = collected_counts s"
  "visited_urls (save_document d s) = visited_urls s"
  "tasks (save_document d s) = tasks s"
  "na_output_file (save_document d s) = na_output_file s @ [d]"
  by (simp_all add: save_document_def)

lemma saved_updates [simp]:
  "saved_urls (s\<lparr>collected_counts := cc\<rparr>) = saved_urls s"
  "saved_urls (s\<lparr>visited_urls := vv\<rparr>) = saved_urls s"
  "saved_urls (save_document d s) = saved_urls s @ [doc_field (u ''url'') d]"
  "saved_in cat (s\<lparr>collected_counts := cc\<rparr>) = saved_in cat s"
  "saved_in cat (s\<lparr>visited_urls := vv\<rparr>) = saved_in cat s"
  "saved_in cat (save_document d s) =
     saved_in cat s @ (if doc_field (u ''category'') d = Some (JStr cat) then [d] else [])"
  by (simp_all add: saved_urls_def saved_in_def save_document_def)















section \<open>Properties of the Daily Sun crawler\<close>










lemma ds_frame [simp]:
  "ds_cat_inv k (st\<lparr>clock := c\<rparr>) = ds_cat_inv k st"
  "ds_cat_inv k (st\<lparr>fetched := f\<rparr>) = ds_cat_inv k st"
  "ds_grows st0 (st\<lparr>clock := c\<rparr>) = ds_grows st0 st"
  "ds_grows st0 (st\<lparr>fetched := f\<rparr>) = ds_grows st0 st"
  "ds_cat_inv k (st\<lparr>last_id := l\<rparr>) = ds_cat_inv k st"
  "ds_cat_inv k (st\<lparr>page := p\<rparr>) = ds_cat_inv k st"
  "ds_cat_inv k (st\<lparr>out_of_fuel := b\<rparr>) = ds_cat_inv k st"
  "ds_cat_inv k (st\<lparr>raised := e\<rparr>) = ds_cat_inv k st"
  "ds_grows st0 (st\<lparr>last_id := l\<rparr>) = ds_grows st0 st"
  "ds_grows st0 (st\<lparr>page := p\<rparr>) = ds_grows st0 st"
  "ds_grows st0 (st\<lparr>out_of_fuel := b\<rparr>) = ds_grows st0 st"
  "ds_grows st0 (st\<lparr>raised := e\<rparr>) = ds_grows st0 st"
  by (simp_all add: ds_cat_inv_def ds_grows_def all_docs_def)




lemma ds_frame_fst [simp]:
  "ds_grows (st\<lparr>clock := c\<rparr>) st' = ds_grows st st'"
  "ds_grows (st\<lparr>fetched := f\<rparr>) st' = ds_grows st st'"
  "ds_grows (st\<lparr>page := p\<rparr>) st' = ds_grows st st'"
  "ds_grows (st\<lparr>last_id := l\<rparr>) st' = ds_grows st st'"
  by (simp_all add: ds_grows_def all_docs_def)







section \<open>Properties of the Kaler Kantho crawler\<close>



lemma kk_frame [simp]:
  "kk_inv (st\<lparr>clock := c\<rparr>) = kk_inv st"
  "kk_inv (st\<lparr>fetched := f\<rparr>) = kk_inv st"
  "kk_inv (st\<lparr>raised := e\<rparr>) = kk_inv st"
  "kk_inv (st\<lparr>out_of_fuel := b\<rparr>) = kk_inv st"
  "kk_inv (st\<lparr>kk_page := p\<rparr>) = kk_inv st"
  "kk_grows st0 (st\<lparr>clock := c\<rparr>) = kk_grows st0 st"
  "kk_grows st0 (st\<lparr>fetched := f\<rparr>) = kk_grows st0 st"
  "kk_grows st0 (st\<lparr>raised := e\<rparr>) = kk_grows st0 st"
  "kk_grows st0 (st\<lparr>out_of_fuel := b\<rparr>) = kk_grows st0 st"
  "kk_grows st0 (st\<lparr>kk_page := p\<rparr>) = kk_grows st0 st"
  "kk_grows (st\<lparr>clock := c\<rparr>) st' = kk_grows st st'"
  "kk_grows (st\<lparr>fetched := f\<rparr>) st' = kk_grows st st'"
  "kk_grows (st\<lparr>kk_page := p\<rparr>) st' = kk_grows st st'"
  by (simp_all add: kk_inv_def kk_grows_def all_docs_def)










subsection \<open>A run on the concrete site\<close>

lemma u_eq [simp]: "(u a = u b) = (a = b)"
  unfolding u_def by (rule inj_map_eq_map) (simp add: inj_on_def)

lemma u_empty [simp]: "(u a = []) = (a = [])"
  by (simp add: u_def)

lemma home_facts:
  "contains (u ''home'') (u ''Just a moment'') = False"
  "search_run (\<lambda>ch. ch \<noteq> 10 \<and> ch \<noteq> 34) False (34 # u ''buildId'' @ [34, 58, 34]) [34] (u ''home'') = None"
  by (simp_all add: u_def match_run_def)

lemma t_home:
  assumes "clock st = 0"
  shows "get_build_id (env_listing b) st =
     (True, st\<lparr>clock := 1, fetched := fetched st @ [kk_base_url st],
              build_id := Some known_build_id\<rparr>)"
  using assms
  by (simp add: get_build_id_def env_listing_def kk_fetch_url_def curl_fetch_url_def home_facts)

lemma t_article:
  assumes "clock st \<in> {2, 3, 5, 6}"
  shows "kk_fetch_article (env_listing b) (JStr c) (JStr (u ''2026-01-22 13:32:00'')) (JInt 7) st =
     (Inr (Some (listed_article b (kk_base_url st) c)),
      st\<lparr>clock := clock st + 1, fetched := fetched st @ [listed_url b st c]\<rparr>)"
  using assms
  by (auto simp: kk_fetch_article_def env_listing_def kk_fetch_url_def curl_fetch_url_def
        detail_page_def get_or_empty_def clean_html_def Let_def listed_article_def listed_body_def
        listed_url_def)

lemma t_item:
  assumes "clock st \<in> {2, 3, 5, 6}" "kk_category_collected st < category_target"
  shows "kk_items (env_listing b) c (news_item # rest) st =
     kk_items (env_listing b) c rest
       (kk_persist (listed_article b (kk_base_url st) c)
          (st\<lparr>clock := clock st + 1, fetched := fetched st @ [listed_url b st c]\<rparr>))"
proof -
  have sl: "item_slug [(u ''n_id'', JInt 7), (u ''start_at'', JStr (u ''2026-01-22 13:32:00''))] c = Inr (JStr c)"
    by (simp add: item_slug_def)
  have g: "item_get (u ''n_id'') [(u ''n_id'', JInt 7), (u ''start_at'', JStr (u ''2026-01-22 13:32:00''))] = JInt 7"
     "item_get (u ''start_at'') [(u ''n_id'', JInt 7), (u ''start_at'', JStr (u ''2026-01-22 13:32:00''))]
        = JStr (u ''2026-01-22 13:32:00'')"
    by (simp_all add: item_get_def)
  have tr: "truthy (listed_article b (kk_base_url st) c)"
    by (simp add: listed_article_def kk_article_def)
  show ?thesis
    using assms(2) t_article[OF assms(1), of b c] tr
    by (simp add: news_item_def sl g)
qed

lemma t_two_items:
  assumes "clock st = 2 \<or> clock st = 5" "kk_category_collected st + 1 < category_target"
  shows "kk_items (env_listing b) c [news_item, news_item] st =
     st\<lparr>clock := clock st + 2,
        fetched := fetched st @ [listed_url b st c, listed_url b st c],
        out := file_write (listed_article b (kk_base_url st) c)
                 (file_write (listed_article b (kk_base_url st) c) (out st)),
        kk_category_collected := kk_category_collected st + 2,
        kk_collected_count := kk_collected_count st + 2\<rparr>"
proof -
  let ?s1 = "kk_persist (listed_article b (kk_base_url st) c)
          (st\<lparr>clock := clock st + 1, fetched := fetched st @ [listed_url b st c]\<rparr>)"
  have a: "kk_items (env_listing b) c [news_item, news_item] st =
           kk_items (env_listing b) c [news_item] ?s1"
    using assms by (intro t_item) auto
  have c1: "clock ?s1 \<in> {2, 3, 5, 6}" "kk_category_collected ?s1 < category_target"
    using assms by (auto simp: kk_persist_def)
  have b: "kk_items (env_listing b) c [news_item] ?s1 =
      kk_items (env_listing b) c []
       (kk_persist (listed_article b (kk_base_url ?s1) c)
          (?s1\<lparr>clock := clock ?s1 + 1, fetched := fetched ?s1 @ [listed_url b ?s1 c]\<rparr>))"
    by (rule t_item[OF c1])
  show ?thesis
    unfolding a b using assms by (auto simp: kk_persist_def bid_of_def listed_url_def)
qed

text \<open>One turn of the page loop, whatever the site answers.\<close>

lemma kk_pages_next:
  assumes "kk_category_collected st < category_target"
    and "kk_fetch_url env (kk_category_url (kk_base_url st) (bid_of st) c (kk_page st)) st = (Some content, st1)"
    and "content \<noteq> []"
    and "kk_json_loads env content = Some (JObj [(u ''pageProps'', JObj [(u ''newsData'', JArr items)])])"
    and "items \<noteq> []"
    and "kk_items env c items st1 = st2"
    and "raised st2 = None"
  shows "kk_pages (Suc n) env c st = kk_pages n env c (st2\<lparr>kk_page := kk_page st2 + 1\<rparr>)"
  using assms by (simp add: get_or_empty_def)

lemma kk_pages_fetch_failed:
  assumes "kk_category_collected st < category_target"
    and "kk_fetch_url env (kk_category_url (kk_base_url st) (bid_of st) c (kk_page st)) st = (None, st1)"
  shows "kk_pages (Suc n) env c st = st1"
  using assms by simp


lemma t_page:
  assumes "clock st = 1 \<or> clock st = 4" "kk_category_collected st + 1 < category_target"
    "raised st = None"
  shows "kk_pages (Suc n) (env_listing b) c st =
     kk_pages n (env_listing b) c
       (st\<lparr>clock := clock st + 3,
          fetched := fetched st @
             [kk_category_url (kk_base_url st) (bid_of st) c (kk_page st),
              listed_url b st c, listed_url b st c],
          out := file_write (listed_article b (kk_base_url st) c)
                   (file_write (listed_article b (kk_base_url st) c) (out st)),
          kk_category_collected := kk_category_collected st + 2,
          kk_collected_count := kk_collected_count st + 2,
          kk_page := kk_page st + 1\<rparr>)"
proof -
  let ?url = "kk_category_url (kk_base_url st) (bid_of st) c (kk_page st)"
  let ?st1 = "st\<lparr>clock := clock st + 1, fetched := fetched st @ [?url]\<rparr>"
  let ?st2 = "?st1\<lparr>clock := clock ?st1 + 2,
        fetched := fetched ?st1 @ [listed_url b ?st1 c, listed_url b ?st1 c],
        out := file_write (listed_article b (kk_base_url ?st1) c)
                 (file_write (listed_article b (kk_base_url ?st1) c) (out ?st1)),
        kk_category_collected := kk_category_collected ?st1 + 2,
        kk_collected_count := kk_collected_count ?st1 + 2\<rparr>"
  have f: "kk_fetch_url (env_listing b) ?url st = (Some (u ''L''), ?st1)"
    using assms(1) by (auto simp: kk_fetch_url_def curl_fetch_url_def env_listing_def)
  have j: "kk_json_loads (env_listing b) (u ''L'') =
             Some (JObj [(u ''pageProps'', JObj [(u ''newsData'', JArr [news_item, news_item])])])"
    by (simp add: env_listing_def list_page_def)
  have i: "kk_items (env_listing b) c [news_item, news_item] ?st1 = ?st2"
    using assms by (intro t_two_items) auto
  have r: "raised ?st2 = None"
    using assms by simp
  have "kk_pages (Suc n) (env_listing b) c st =
          kk_pages n (env_listing b) c (?st2\<lparr>kk_page := kk_page ?st2 + 1\<rparr>)"
    using assms(2) by (intro kk_pages_next[OF _ f _ j _ i r]) auto
  also have "?st2\<lparr>kk_page := kk_page ?st2 + 1\<rparr> =
       st\<lparr>clock := clock st + 3,
          fetched := fetched st @ [?url, listed_url b st c, listed_url b st c],
          out := file_write (listed_article b (kk_base_url st) c)
                   (file_write (listed_article b (kk_base_url st) c) (out st)),
          kk_category_collected := kk_category_collected st + 2,
          kk_collected_count := kk_collected_count st + 2,
          kk_page := kk_page st + 1\<rparr>"
    by (simp add: listed_url_def bid_of_def)
  finally show ?thesis .
qed

lemma t_page_failed:
  assumes "7 \<le> clock st" "kk_category_collected st < category_target"
  shows "kk_pages (Suc n) (env_listing b) c st =
     st\<lparr>clock := clock st + 1,
        fetched := fetched st @ [kk_category_url (kk_base_url st) (bid_of st) c (kk_page st)]\<rparr>"
proof -
  have "kk_fetch_url (env_listing b) (kk_category_url (kk_base_url st) (bid_of st) c (kk_page st)) st =
      (None, st\<lparr>clock := clock st + 1,
        fetched := fetched st @ [kk_category_url (kk_base_url st) (bid_of st) c (kk_page st)]\<rparr>)"
    using assms(1) by (auto simp: kk_fetch_url_def curl_fetch_url_def env_listing_def)
  from kk_pages_fetch_failed[OF assms(2) this] show ?thesis .
qed


lemma t_first_category:
  assumes "clock st = 1" "kk_category_collected st = 0" "raised st = None"
  shows "kk_pages (Suc (Suc (Suc n))) (env_listing b) c st =
     st\<lparr>clock := 8,
        fetched := fetched st @
           [kk_category_url (kk_base_url st) (bid_of st) c (kk_page st),
            listed_url b st c, listed_url b st c,
            kk_category_url (kk_base_url st) (bid_of st) c (kk_page st + 1),
            listed_url b st c, listed_url b st c,
            kk_category_url (kk_base_url st) (bid_of st) c (kk_page st + 2)],
        out := file_write (listed_article b (kk_base_url st) c)
                (file_write (listed_article b (kk_base_url st) c)
                  (file_write (listed_article b (kk_base_url st) c)
                    (file_write (listed_article b (kk_base_url st) c) (out st)))),
        kk_category_collected := 4,
        kk_collected_count := kk_collected_count st + 4,
        kk_page := kk_page st + 2\<rparr>"
proof -
  let ?A = "listed_article b (kk_base_url st) c"
  let ?s1 = "st\<lparr>clock := clock st + 3,
          fetched := fetched st @
             [kk_category_url (kk_base_url st) (bid_of st) c (kk_page st),
              listed_url b st c, listed_url b st c],
          out := file_write ?A (file_write ?A (out st)),
          kk_category_collected := kk_category_collected st + 2,
          kk_collected_count := kk_collected_count st + 2,
          kk_page := kk_page st + 1\<rparr>"
  let ?s2 = "?s1\<lparr>clock := clock ?s1 + 3,
          fetched := fetched ?s1 @
             [kk_category_url (kk_base_url ?s1) (bid_of ?s1) c (kk_page ?s1),
              listed_url b ?s1 c, listed_url b ?s1 c],
          out := file_write (listed_article b (kk_base_url ?s1) c)
                   (file_write (listed_article b (kk_base_url ?s1) c) (out ?s1)),
          kk_category_collected := kk_category_collected ?s1 + 2,
          kk_collected_count := kk_collected_count ?s1 + 2,
          kk_page := kk_page ?s1 + 1\<rparr>"
  have "kk_pages (Suc (Suc (Suc n))) (env_listing b) c st = kk_pages (Suc (Suc n)) (env_listing b) c ?s1"
    using assms by (intro t_page) (auto simp: category_target_def)
  also have "\<dots> = kk_pages (Suc n) (env_listing b) c ?s2"
    using assms by (intro t_page) (auto simp: category_target_def)
  also have "\<dots> = ?s2\<lparr>clock := clock ?s2 + 1,
        fetched := fetched ?s2 @ [kk_category_url (kk_base_url ?s2) (bid_of ?s2) c (kk_page ?s2)]\<rparr>"
    using assms by (intro t_page_failed) (auto simp: category_target_def)
  also have "\<dots> = st\<lparr>clock := 8,
        fetched := fetched st @
           [kk_category_url (kk_base_url st) (bid_of st) c (kk_page st),
            listed_url b st c, listed_url b st c,
            kk_category_url (kk_base_url st) (bid_of st) c (kk_page st + 1),
            listed_url b st c, listed_url b st c,
            kk_category_url (kk_base_url st) (bid_of st) c (kk_page st + 2)],
        out := file_write ?A (file_write ?A (file_write ?A (file_write ?A (out st)))),
        kk_category_collected := 4,
        kk_collected_count := kk_collected_count st + 4,
        kk_page := kk_page st + 2\<rparr>"
    using assms by (simp add: listed_url_def bid_of_def)
  finally show ?thesis .
qed

lemma t_first_page_only:
  assumes "clock st = 1" "kk_category_collected st = 0" "raised st = None"
  shows "kk_pages (Suc 0) (env_listing b) c st =
     st\<lparr>clock := 4,
        fetched := fetched st @
           [kk_category_url (kk_base_url st) (bid_of st) c (kk_page st),
            listed_url b st c, listed_url b st c],
        out := file_write (listed_article b (kk_base_url st) c)
                 (file_write (listed_article b (kk_base_url st) c) (out st)),
        out_of_fuel := True,
        kk_category_collected := 2,
        kk_collected_count := kk_collected_count st + 2,
        kk_page := kk_page st + 1\<rparr>"
proof -
  have "kk_pages (Suc 0) (env_listing b) c st = kk_pages 0 (env_listing b) c
       (st\<lparr>clock := clock st + 3,
          fetched := fetched st @
             [kk_category_url (kk_base_url st) (bid_of st) c (kk_page st),
              listed_url b st c, listed_url b st c],
          out := file_write (listed_article b (kk_base_url st) c)
                   (file_write (listed_article b (kk_base_url st) c) (out st)),
          kk_category_collected := kk_category_collected st + 2,
          kk_collected_count := kk_collected_count st + 2,
          kk_page := kk_page st + 1\<rparr>)"
    using assms by (intro t_page) (auto simp: category_target_def)
  then show ?thesis
    using assms by (simp add: category_target_def)
qed

lemma t_other_categories:
  assumes "7 \<le> clock st" "raised st = None" "\<not> out_of_fuel st"
  shows "kk_categories (Suc n) (env_listing b) (c # cs) st =
     st\<lparr>clock := clock st + Suc (length cs),
        fetched := fetched st @ map (\<lambda>c. kk_category_url (kk_base_url st) (bid_of st) c 1) (c # cs),
        kk_category_collected := 0, kk_page := 1\<rparr>"
  using assms
proof (induction cs arbitrary: st c)
  case Nil
  have p0: "kk_pages (Suc n) (env_listing b) c (st\<lparr>kk_category_collected := 0, kk_page := 1\<rparr>) =
     (st\<lparr>kk_category_collected := 0, kk_page := 1\<rparr>)\<lparr>clock := clock (st\<lparr>kk_category_collected := 0, kk_page := 1\<rparr>) + 1,
        fetched := fetched (st\<lparr>kk_category_collected := 0, kk_page := 1\<rparr>) @
          [kk_category_url (kk_base_url (st\<lparr>kk_category_collected := 0, kk_page := 1\<rparr>))
             (bid_of (st\<lparr>kk_category_collected := 0, kk_page := 1\<rparr>)) c
             (kk_page (st\<lparr>kk_category_collected := 0, kk_page := 1\<rparr>))]\<rparr>"
    using Nil by (intro t_page_failed) (auto simp: category_target_def)
  then show ?case
    using Nil by (subst kk_categories.simps(2), unfold p0) (simp add: bid_of_def)
next
  case (Cons d cs)
  let ?s0 = "st\<lparr>kk_category_collected := 0, kk_page := 1\<rparr>"
  let ?s1 = "?s0\<lparr>clock := clock ?s0 + 1,
        fetched := fetched ?s0 @ [kk_category_url (kk_base_url ?s0) (bid_of ?s0) c (kk_page ?s0)]\<rparr>"
  have p: "kk_pages (Suc n) (env_listing b) c ?s0 = ?s1"
    using Cons.prems by (intro t_page_failed) (auto simp: category_target_def)
  have "kk_categories (Suc n) (env_listing b) (c # d # cs) st =
        kk_categories (Suc n) (env_listing b) (d # cs) ?s1"
    by (subst kk_categories.simps(2), unfold p) (use Cons.prems in \<open>simp del: kk_categories.simps\<close>)
  also have "\<dots> = ?s1\<lparr>clock := clock ?s1 + Suc (length cs),
        fetched := fetched ?s1 @ map (\<lambda>c. kk_category_url (kk_base_url ?s1) (bid_of ?s1) c 1) (d # cs),
        kk_category_collected := 0, kk_page := 1\<rparr>"
    using Cons.prems by (intro Cons.IH) auto
  also have "\<dots> = st\<lparr>clock := clock st + Suc (length (d # cs)),
        fetched := fetched st @ map (\<lambda>c. kk_category_url (kk_base_url st) (bid_of st) c 1) (c # d # cs),
        kk_category_collected := 0, kk_page := 1\<rparr>"
    by (simp add: bid_of_def)
  finally show ?case .
qed


lemma t_crawl:
  fixes b old target n
  defines "base \<equiv> u ''https://www.kalerkantho.com''"
  defines "A \<equiv> listed_article b base (u ''national'')"
  defines "D \<equiv> kk_article_url (env_listing b) base known_build_id (JStr (u ''national'')) (2026, 1, 22) (JInt 7)"
  shows "kk_crawl (Suc (Suc (Suc n))) (env_listing b) (kk_init old target) =
     \<lparr>clock = 12,
      fetched = [base,
                 kk_category_url base known_build_id (u ''national'') 1, D, D,
                 kk_category_url base known_build_id (u ''national'') 2, D, D,
                 kk_category_url base known_build_id (u ''national'') 3,
                 kk_category_url base known_build_id (u ''entertainment'') 1,
                 kk_category_url base known_build_id (u ''Islamic-lifestylie'') 1,
                 kk_category_url base known_build_id (u ''Politics'') 1,
                 kk_category_url base known_build_id (u ''lifestyle'') 1],
      out = \<lparr>disk = [A, A, A, A], buffer = []\<rparr>, raised = None, out_of_fuel = False,
      kk_base_url = base, kk_target_count = target, kk_collected_count = 4,
      build_id = Some known_build_id, kk_category_collected = 0, kk_page = 1\<rparr>"
proof -
  let ?env = "env_listing b"
  let ?fuel = "Suc (Suc (Suc n))"
  let ?i = "kk_init old target"
  let ?s0 = "?i\<lparr>clock := 1, fetched := fetched ?i @ [kk_base_url ?i], build_id := Some known_build_id\<rparr>"
  let ?s1 = "?s0\<lparr>out := file_open_w\<rparr>\<lparr>kk_category_collected := 0, kk_page := 1\<rparr>"
  let ?c = "u ''national''"
  let ?s2 = "?s1\<lparr>clock := 8,
        fetched := fetched ?s1 @
           [kk_category_url (kk_base_url ?s1) (bid_of ?s1) ?c (kk_page ?s1),
            listed_url b ?s1 ?c, listed_url b ?s1 ?c,
            kk_category_url (kk_base_url ?s1) (bid_of ?s1) ?c (kk_page ?s1 + 1),
            listed_url b ?s1 ?c, listed_url b ?s1 ?c,
            kk_category_url (kk_base_url ?s1) (bid_of ?s1) ?c (kk_page ?s1 + 2)],
        out := file_write (listed_article b (kk_base_url ?s1) ?c)
                (file_write (listed_article b (kk_base_url ?s1) ?c)
                  (file_write (listed_article b (kk_base_url ?s1) ?c)
                    (file_write (listed_article b (kk_base_url ?s1) ?c) (out ?s1)))),
        kk_category_collected := 4,
        kk_collected_count := kk_collected_count ?s1 + 4,
        kk_page := kk_page ?s1 + 2\<rparr>"
  let ?rest = "[u ''Islamic-lifestylie'', u ''Politics'', u ''lifestyle'']"
  let ?s3 = "?s2\<lparr>clock := clock ?s2 + Suc (length ?rest),
        fetched := fetched ?s2 @
          map (\<lambda>c. kk_category_url (kk_base_url ?s2) (bid_of ?s2) c 1) (u ''entertainment'' # ?rest),
        kk_category_collected := 0, kk_page := 1\<rparr>"
  have h: "get_build_id ?env ?i = (True, ?s0)"
    by (intro t_home) (simp add: kk_init_def)
  have p: "kk_pages ?fuel ?env ?c ?s1 = ?s2"
    by (intro t_first_category) (simp_all add: kk_init_def)
  have r: "kk_categories ?fuel ?env (u ''entertainment'' # ?rest) ?s2 = ?s3"
    by (intro t_other_categories) (simp_all add: kk_init_def)
  have c: "kk_categories ?fuel ?env kk_categories_list (?s0\<lparr>out := file_open_w\<rparr>) = ?s3"
    unfolding kk_categories_list_def
    by (subst kk_categories.simps(2), unfold p, fold r)
       (simp add: kk_init_def del: kk_categories.simps)
  have "kk_crawl ?fuel ?env ?i = ?s3\<lparr>out := file_flush (out ?s3)\<rparr>"
    unfolding kk_crawl_def h by (simp only: prod.case Let_def c) (simp add: kk_init_def)
  also have "\<dots> = \<lparr>clock = 12,
      fetched = [base,
                 kk_category_url base known_build_id (u ''national'') 1, D, D,
                 kk_category_url base known_build_id (u ''national'') 2, D, D,
                 kk_category_url base known_build_id (u ''national'') 3,
                 kk_category_url base known_build_id (u ''entertainment'') 1,
                 kk_category_url base known_build_id (u ''Islamic-lifestylie'') 1,
                 kk_category_url base known_build_id (u ''Politics'') 1,
                 kk_category_url base known_build_id (u ''lifestyle'') 1],
      out = \<lparr>disk = [A, A, A, A], buffer = []\<rparr>, raised = None, out_of_fuel = False,
      kk_base_url = base, kk_target_count = target, kk_collected_count = 4,
      build_id = Some known_build_id, kk_category_collected = 0, kk_page = 1\<rparr>"
    by (simp add: kk_init_def bid_of_def listed_url_def file_open_w_def file_write_def
          file_flush_def base_def A_def D_def numeral_2_eq_2 numeral_3_eq_3)
  finally show ?thesis .
qed

lemma t_crawl_cut:
  fixes b old target
  defines "base \<equiv> u ''https://www.kalerkantho.com''"
  defines "A \<equiv> listed_article b base (u ''national'')"
  defines "D \<equiv> kk_article_url (env_listing b) base known_build_id (JStr (u ''national'')) (2026, 1, 22) (JInt 7)"
  shows "kk_crawl (Suc 0) (env_listing b) (kk_init old target) =
     \<lparr>clock = 4,
      fetched = [base, kk_category_url base known_build_id (u ''national'') 1, D, D],
      out = \<lparr>disk = [], buffer = [A, A]\<rparr>, raised = None, out_of_fuel = True,
      kk_base_url = base, kk_target_count = target, kk_collected_count = 2,
      build_id = Some known_build_id, kk_category_collected = 2, kk_page = 2\<rparr>"
proof -
  let ?env = "env_listing b"
  let ?i = "kk_init old target"
  let ?s0 = "?i\<lparr>clock := 1, fetched := fetched ?i @ [kk_base_url ?i], build_id := Some known_build_id\<rparr>"
  let ?s1 = "?s0\<lparr>out := file_open_w\<rparr>\<lparr>kk_category_collected := 0, kk_page := 1\<rparr>"
  let ?c = "u ''national''"
  let ?s2 = "?s1\<lparr>clock := 4,
        fetched := fetched ?s1 @
           [kk_category_url (kk_base_url ?s1) (bid_of ?s1) ?c (kk_page ?s1),
            listed_url b ?s1 ?c, listed_url b ?s1 ?c],
        out := file_write (listed_article b (kk_base_url ?s1) ?c)
                 (file_write (listed_article b (kk_base_url ?s1) ?c) (out ?s1)),
        out_of_fuel := True,
        kk_category_collected := 2,
        kk_collected_count := kk_collected_count ?s1 + 2,
        kk_page := kk_page ?s1 + 1\<rparr>"
  have h: "get_build_id ?env ?i = (True, ?s0)"
    by (intro t_home) (simp add: kk_init_def)
  have p: "kk_pages (Suc 0) ?env ?c ?s1 = ?s2"
    by (intro t_first_page_only) (simp_all add: kk_init_def)
  have c: "kk_categories (Suc 0) ?env kk_categories_list (?s0\<lparr>out := file_open_w\<rparr>) = ?s2"
    unfolding kk_categories_list_def
    by (subst kk_categories.simps(2), unfold p) (simp del: kk_categories.simps)
  have "kk_crawl (Suc 0) ?env ?i = ?s2"
    unfolding kk_crawl_def h by (simp only: prod.case Let_def c) simp
  also have "\<dots> = \<lparr>clock = 4,
      fetched = [base, kk_category_url base known_build_id (u ''national'') 1, D, D],
      out = \<lparr>disk = [], buffer = [A, A]\<rparr>, raised = None, out_of_fuel = True,
      kk_base_url = base, kk_target_count = target, kk_collected_count = 2,
      build_id = Some known_build_id, kk_category_collected = 2, kk_page = 2\<rparr>"
    by (simp add: kk_init_def bid_of_def listed_url_def file_open_w_def file_write_def
          base_def A_def D_def)
  finally show ?thesis .
qed

lemma py_str_digit: "n < 10 \<Longrightarrow> py_str n = [48 + n]"
  by (simp add: py_str.simps)

lemma py_str_2026: "py_str 2026 = u ''2026''"
  by (simp add: py_str.simps[of 2026] py_str.simps[of 202] py_str.simps[of 20] py_str_digit u_def)

lemma two_digits_date: "two_digits 1 = u ''01''" "two_digits 22 = u ''22''"
  by (simp_all add: two_digits_def py_str.simps[of 22] py_str_digit u_def)

lemma listed_article_national:
  "listed_article b (u ''https://www.kalerkantho.com'') (u ''national'') = national_doc (listed_body b)"
  unfolding listed_article_def national_doc_def kk_article_def kk_public_url_def py_format_def
    prod.case json.case py_str_2026 two_digits_date
  by (simp add: py_str_digit) (simp add: u_def)

lemma listed_body_x: "listed_body (u ''x'') = u ''x''" "listed_body [] = []"
  by (simp_all add: listed_body_def join_space_def py_split_def u_def isspace_def)

lemma detail_url_national:
  "kk_article_url (env_listing b) (u ''https://www.kalerkantho.com'') known_build_id
      (JStr (u ''national'')) (2026, 1, 22) (JInt 7) =
   u ''https://www.kalerkantho.com/_next/data/kk-build-0.5.95/online/national/2026/01/22/7.json''"
  unfolding kk_article_url_def known_build_id_def py_format_def
    prod.case json.case py_str_2026 two_digits_date
  by (simp add: py_str_digit) (simp add: u_def)

lemma list_urls:
  "kk_category_url (u ''https://www.kalerkantho.com'') known_build_id (u ''national'') 1 =
     u ''https://www.kalerkantho.com/_next/data/kk-build-0.5.95/online/national.json?page=1''"
  "kk_category_url (u ''https://www.kalerkantho.com'') known_build_id (u ''national'') 2 =
     u ''https://www.kalerkantho.com/_next/data/kk-build-0.5.95/online/national.json?page=2''"
  "kk_category_url (u ''https://www.kalerkantho.com'') known_build_id (u ''national'') 3 =
     u ''https://www.kalerkantho.com/_next/data/kk-build-0.5.95/online/national.json?page=3''"
  "kk_category_url (u ''https://www.kalerkantho.com'') known_build_id (u ''entertainment'') 1 =
     u ''https://www.kalerkantho.com/_next/data/kk-build-0.5.95/online/entertainment.json?page=1''"
  "kk_category_url (u ''https://www.kalerkantho.com'') known_build_id (u ''Islamic-lifestylie'') 1 =
     u ''https://www.kalerkantho.com/_next/data/kk-build-0.5.95/online/Islamic-lifestylie.json?page=1''"
  "kk_category_url (u ''https://www.kalerkantho.com'') known_build_id (u ''Politics'') 1 =
     u ''https://www.kalerkantho.com/_next/data/kk-build-0.5.95/online/Politics.json?page=1''"
  "kk_category_url (u ''https://www.kalerkantho.com'') known_build_id (u ''lifestyle'') 1 =
     u ''https://www.kalerkantho.com/_next/data/kk-build-0.5.95/online/lifestyle.json?page=1''"
  by (simp_all add: kk_category_url_def known_build_id_def py_str_digit u_def)

lemma kk_run:
  "kk_crawl (Suc (Suc (Suc n))) (env_listing b) (kk_init old target) =
     \<lparr>clock = 12,
      fetched =
        [u ''https://www.kalerkantho.com'',
         u ''https://www.kalerkantho.com/_next/data/kk-build-0.5.95/online/national.json?page=1'',
         u ''https://www.kalerkantho.com/_next/data/kk-build-0.5.95/online/national/2026/01/22/7.json'',
         u ''https://www.kalerkantho.com/_next/data/kk-build-0.5.95/online/national/2026/01/22/7.json'',
         u ''https://www.kalerkantho.com/_next/data/kk-build-0.5.95/online/national.json?page=2'',
         u ''https://www.kalerkantho.com/_next/data/kk-build-0.5.95/online/national/2026/01/22/7.json'',
         u ''https://www.kalerkantho.com/_next/data/kk-build-0.5.95/online/national/2026/01/22/7.json'',
         u ''https://www.kalerkantho.com/_next/data/kk-build-0.5.95/online/national.json?page=3'',
         u ''https://www.kalerkantho.com/_next/data/kk-build-0.5.95/online/entertainment.json?page=1'',
         u ''https://www.kalerkantho.com/_next/data/kk-build-0.5.95/online/Islamic-lifestylie.json?page=1'',
         u ''https://www.kalerkantho.com/_next/data/kk-build-0.5.95/online/Politics.json?page=1'',
         u ''https://www.kalerkantho.com/_next/data/kk-build-0.5.95/online/lifestyle.json?page=1''],
      out = \<lparr>disk = [national_doc (listed_body b), national_doc (listed_body b),
                       national_doc (listed_body b), national_doc (listed_body b)],
             buffer = []\<rparr>,
      raised = None, out_of_fuel = False,
      kk_base_url = u ''https://www.kalerkantho.com'', kk_target_count = target,
      kk_collected_count = 4, build_id = Some known_build_id, kk_category_collected = 0,
      kk_page = 1\<rparr>"
  unfolding t_crawl list_urls detail_url_national listed_article_national by (rule refl)

lemma kk_run_cut:
  "kk_crawl (Suc 0) (env_listing b) (kk_init old target) =
     \<lparr>clock = 4,
      fetched =
        [u ''https://www.kalerkantho.com'',
         u ''https://www.kalerkantho.com/_next/data/kk-build-0.5.95/online/national.json?page=1'',
         u ''https://www.kalerkantho.com/_next/data/kk-build-0.5.95/online/national/2026/01/22/7.json'',
         u ''https://www.kalerkantho.com/_next/data/kk-build-0.5.95/online/national/2026/01/22/7.json''],
      out = \<lparr>disk = [], buffer = [national_doc (listed_body b), national_doc (listed_body b)]\<rparr>,
      raised = None, out_of_fuel = True,
      kk_base_url = u ''https://www.kalerkantho.com'', kk_target_count = target,
      kk_collected_count = 2, build_id = Some known_build_id, kk_category_collected = 2,
      kk_page = 2\<rparr>"
  unfolding t_crawl_cut list_urls detail_url_national listed_article_national by (rule refl)

text \<open>
  Claim C5. Kaler Kantho does not flush after a write. On the concrete site with the body
  \<open>x\<close>, a run cut when it is about to ask for the second list page has accepted and
  counted two documents, and both are still in the buffer of the stream: nothing has
  reached the disk, so an interruption there loses two records and not only the one in
  flight.
\<close>

theorem kaler_kantho_buffers_writes:
  "out (kk_crawl 1 (env_listing (u ''x'')) (kk_init [] 200)) =
     \<lparr>disk = [], buffer = [national_doc (u ''x''), national_doc (u ''x'')]\<rparr> \<and>
   kk_collected_count (kk_crawl 1 (env_listing (u ''x'')) (kk_init [] 200)) = 2 \<and>
   out_of_fuel (kk_crawl 1 (env_listing (u ''x'')) (kk_init [] 200))"
  unfolding One_nat_def kk_run_cut by (simp add: listed_body_x)

text \<open>
  Claim C3. Kaler Kantho accepts whatever \<open>fetch_article\<close> returns: where the detail
  page has an empty \<open>n_details\<close>, the finished run has written four documents whose
  \<open>body\<close> is the empty string and which have no \<open>content_type\<close> field. Prothom Alo's
  \<open>parse_article\<close> yields the item of a page without text paragraphs with an empty
  \<open>body\<close> and tagged as a full article.
\<close>

theorem empty_body_is_persisted:
  "disk (out (kk_crawl 3 (env_listing []) (kk_init [] 200))) =
     [national_doc [], national_doc [], national_doc [], national_doc []] \<and>
   doc_field (u ''body'') (national_doc []) = Some (JStr []) \<and>
   doc_field (u ''content_type'') (national_doc []) = None \<and>
   doc_field (u ''body'') (pa_parse_article photo_story) = Some (JStr []) \<and>
   doc_field (u ''content_type'') (pa_parse_article photo_story) = Some (JStr (u ''full-article''))"
proof -
  have "disk (out (kk_crawl 3 (env_listing []) (kk_init [] 200))) =
     [national_doc [], national_doc [], national_doc [], national_doc []]"
    unfolding numeral_3_eq_3 kk_run by (simp add: listed_body_x)
  moreover have "doc_field (u ''body'') (national_doc []) = Some (JStr [])"
    "doc_field (u ''content_type'') (national_doc []) = None"
    by (simp_all add: national_doc_def doc_field_def)
  moreover have "doc_field (u ''body'') (pa_parse_article photo_story) = Some (JStr [])"
    "doc_field (u ''content_type'') (pa_parse_article photo_story) = Some (JStr (u ''full-article''))"
    by (simp_all add: pa_parse_article_def photo_story_def doc_field_def join_space_def)
  ultimately show ?thesis by simp
qed

section \<open>Deduplication\<close>














section \<open>A run of the Daily Sun crawler on a concrete site\<close>






























section \<open>The target count\<close>










end
